theory Spec2Isabelle
  imports Complex_Main
begin

section \<open>The value model\<close>

text \<open>
  The engine of \<^verbatim>\<open>src/lib/db.js\<close> works on dynamically typed JavaScript values: queries,
  projections, updates and documents are all inspected with \<^verbatim>\<open>typeof\<close>,
  \<^verbatim>\<open>Array.isArray\<close> and comparisons with \<^verbatim>\<open>null\<close> and \<^verbatim>\<open>undefined\<close>. The model
  therefore has one universal value type.

  \<^item> An object is the list of its own enumerable properties, in the order in which
    \<^verbatim>\<open>Object.keys\<close> enumerates them. The objects that the engine is given (queries,
    projections, updates, options, documents) and the ones it makes are plain objects: their
    prototype is \<^verbatim>\<open>Object.prototype\<close>, and a property read \<^verbatim>\<open>obj[k]\<close> that finds no own
    property returns the property of \<^verbatim>\<open>Object.prototype\<close> of that name, see
    \<open>objectPrototype\<close> below.
  \<^item> Numbers are the integer-valued numbers; arithmetic is exact (JavaScript rounds beyond
    \<open>2\<^sup>5\<^sup>3\<close>, and has fractions, \<^verbatim>\<open>NaN\<close> and the infinities, which are not modelled).
  \<^item> A function value is a name: a function of the caller (the operand of \<^verbatim>\<open>$where\<close>) or a
    function that the runtime provides. What calling one does is given by the host, see
    \<open>host\<close> below.
  \<^item> Strings are lists of characters, compared by character code.
\<close>

datatype fn = Builtin string | Closure nat

datatype jsval =
    JUndef
  | JNull
  | JBool bool
  | JNum int
  | JStr string
  | JArr "jsval list"
  | JObj "(string \<times> jsval) list"
  | JFun fn

text \<open>
  The exceptions that the engine and the built-ins it calls can raise. \<open>Unmodelled\<close> is not
  one of them: it ends a run in which the engine is about to read or write the properties
  of a function, to rewrite a member that the runtime has given to \<^verbatim>\<open>Object.prototype\<close>, or
  to change a value that a document only inherits (see \<open>pushStep\<close> and \<open>updateAll\<close>). What
  the program does from there on is not described, and no property below says anything of
  such a run.
\<close>

datatype exn = TypeError | SyntaxError | DataCloneError | UserError | Unmodelled

type_synonym doc = "(string \<times> jsval) list"
type_synonym docmap = "(string \<times> doc) list"

text \<open>
  The host: \<open>regexp_test p s\<close> is \<^verbatim>\<open>new RegExp(p, "i").test(s)\<close>, which raises a
  \<^verbatim>\<open>SyntaxError\<close> when \<open>p\<close> is not a well-formed pattern; \<open>call_fn f d\<close> is the call of the
  function value \<open>JFun f\<close> on the document \<open>d\<close>, which returns a value or raises. The
  function is given the stored document itself; it is taken to be a predicate, which reads
  the document and does not write to it.
\<close>

record host =
  regexp_test :: "string \<Rightarrow> string \<Rightarrow> exn + bool"
  call_fn :: "fn \<Rightarrow> doc \<Rightarrow> exn + jsval"

fun typeof :: "jsval \<Rightarrow> string" where
  "typeof JUndef = ''undefined''"
| "typeof JNull = ''object''"
| "typeof (JBool b) = ''boolean''"
| "typeof (JNum n) = ''number''"
| "typeof (JStr s) = ''string''"
| "typeof (JArr xs) = ''object''"
| "typeof (JObj kvs) = ''object''"
| "typeof (JFun f) = ''function''"

fun isArray :: "jsval \<Rightarrow> bool" where
  "isArray (JArr xs) = True"
| "isArray v = False"

text \<open>Truthiness: \<^verbatim>\<open>undefined\<close>, \<^verbatim>\<open>null\<close>, \<^verbatim>\<open>false\<close>, \<^verbatim>\<open>0\<close> and \<^verbatim>\<open>""\<close> are falsy.\<close>

fun truthy :: "jsval \<Rightarrow> bool" where
  "truthy JUndef = False"
| "truthy JNull = False"
| "truthy (JBool b) = b"
| "truthy (JNum n) = (n \<noteq> 0)"
| "truthy (JStr s) = (s \<noteq> [])"
| "truthy v = True"

text \<open>
  Strict equality \<^verbatim>\<open>===\<close>. Primitives are compared by value. Objects and arrays are
  compared by identity; the two sides of every comparison in the engine come from different
  owners (a stored document on one side, a query on the other, and the store holds only
  structured clones), so two such values are never the same reference. A function is equal
  to itself: a document inherits the functions of \<^verbatim>\<open>Object.prototype\<close>, and a query can hold
  one of them.
\<close>

fun strictEq :: "jsval \<Rightarrow> jsval \<Rightarrow> bool" where
  "strictEq JUndef JUndef = True"
| "strictEq JNull JNull = True"
| "strictEq (JBool a) (JBool b) = (a = b)"
| "strictEq (JNum a) (JNum b) = (a = b)"
| "strictEq (JStr a) (JStr b) = (a = b)"
| "strictEq (JFun f) (JFun g) = (f = g)"
| "strictEq v w = False"

text \<open>String comparison \<^verbatim>\<open><\<close>: lexicographic, by character code.\<close>

fun strLess :: "string \<Rightarrow> string \<Rightarrow> bool" where
  "strLess [] [] = False"
| "strLess [] (b # bs) = True"
| "strLess (a # as) [] = False"
| "strLess (a # as) (b # bs) =
     ((of_char a :: nat) < of_char b \<or> (a = b \<and> strLess as bs))"

fun startsWith :: "string \<Rightarrow> string \<Rightarrow> bool" where
  "startsWith s [] = True"
| "startsWith [] (b # bs) = False"
| "startsWith (a # as) (b # bs) = (a = b \<and> startsWith as bs)"

text \<open>\<^verbatim>\<open>s.includes(sub)\<close> on strings.\<close>

fun strIncludes :: "string \<Rightarrow> string \<Rightarrow> bool" where
  "strIncludes [] sub = (sub = [])"
| "strIncludes (a # as) sub = (startsWith (a # as) sub \<or> strIncludes as sub)"

text \<open>
  \<^verbatim>\<open>xs.includes(v)\<close> on arrays compares with SameValueZero, which differs from \<^verbatim>\<open>===\<close>
  only on \<^verbatim>\<open>NaN\<close>.
\<close>

definition arrIncludes :: "jsval list \<Rightarrow> jsval \<Rightarrow> bool" where
  "arrIncludes xs v = list_ex (\<lambda>x. strictEq x v) xs"

subsection \<open>Objects\<close>

text \<open>The decimal name of an array index.\<close>

fun showNat :: "nat \<Rightarrow> string" where
  "showNat n =
     (if n < 10 then [char_of (48 + n)]
      else showNat (n div 10) @ [char_of (48 + n mod 10)])"

declare showNat.simps [simp del]

definition isDigit :: "char \<Rightarrow> bool" where
  "isDigit c = (48 \<le> (of_char c :: nat) \<and> (of_char c :: nat) \<le> 57)"

definition indexVal :: "string \<Rightarrow> nat" where
  "indexVal s = foldl (\<lambda>a c. 10 * a + (of_char c - 48)) 0 s"

text \<open>
  An array index is a canonical numeric string (no sign, no leading zero) of a value up to
  \<open>2\<^sup>3\<^sup>2 - 2\<close>. \<^verbatim>\<open>Object.keys\<close> enumerates the array indices of an object first, in
  ascending order, and the other keys after them, in the order of their creation.
\<close>

definition isArrayIndex :: "string \<Rightarrow> bool" where
  "isArrayIndex s =
     (s \<noteq> [] \<and> list_all isDigit s \<and> (s = ''0'' \<or> hd s \<noteq> CHR ''0'')
      \<and> indexVal s < 4294967295)"

text \<open>The own property \<open>k\<close> of an object whose values have type \<open>'a\<close>, if it has one.\<close>

definition ownProp :: "(string \<times> 'a) list \<Rightarrow> string \<Rightarrow> 'a option" where
  "ownProp obj k = map_of obj k"

definition hasKey :: "(string \<times> 'a) list \<Rightarrow> string \<Rightarrow> bool" where
  "hasKey obj k = (k \<in> set (map fst obj))"

fun replaceProp :: "(string \<times> 'a) list \<Rightarrow> string \<Rightarrow> 'a \<Rightarrow> (string \<times> 'a) list" where
  "replaceProp [] k v = []"
| "replaceProp ((k', v') # rest) k v =
     (if k' = k then (k, v) # rest else (k', v') # replaceProp rest k v)"

fun insertIndex :: "(string \<times> 'a) list \<Rightarrow> string \<Rightarrow> 'a \<Rightarrow> (string \<times> 'a) list" where
  "insertIndex [] k v = [(k, v)]"
| "insertIndex ((k', v') # rest) k v =
     (if isArrayIndex k' \<and> indexVal k' < indexVal k then (k', v') # insertIndex rest k v
      else (k, v) # (k', v') # rest)"

text \<open>
  \<^verbatim>\<open>obj[k] = v\<close>: an existing property keeps its place; a new one is created, among the
  array indices when \<open>k\<close> is one and at the end otherwise. (The one name for which an
  assignment to a plain object does not create a property is \<^verbatim>\<open>__proto__\<close>, when the object
  has no own property of that name: the inherited setter then replaces the prototype of
  the object, or does nothing. The model creates the property there as well.)
\<close>

definition putProp :: "(string \<times> 'a) list \<Rightarrow> string \<Rightarrow> 'a \<Rightarrow> (string \<times> 'a) list" where
  "putProp obj k v =
     (if hasKey obj k then replaceProp obj k v
      else if isArrayIndex k then insertIndex obj k v
      else obj @ [(k, v)])"

text \<open>\<^verbatim>\<open>delete obj[k]\<close>.\<close>

definition deleteProp :: "(string \<times> 'a) list \<Rightarrow> string \<Rightarrow> (string \<times> 'a) list" where
  "deleteProp obj k = filter (\<lambda>(k', v'). k' \<noteq> k) obj"

text \<open>
  The members that the runtime gives to \<^verbatim>\<open>Object.prototype\<close>: eleven functions
  (\<^verbatim>\<open>constructor\<close> is the function \<^verbatim>\<open>Object\<close>) and the accessor \<^verbatim>\<open>__proto__\<close>. None of the
  twelve is enumerable.
\<close>

definition memberNames :: "string list" where
  "memberNames =
     [''constructor'', ''hasOwnProperty'', ''isPrototypeOf'', ''propertyIsEnumerable'',
      ''toLocaleString'', ''toString'', ''valueOf'', ''__defineGetter__'',
      ''__defineSetter__'', ''__lookupGetter__'', ''__lookupSetter__'', ''__proto__'']"

text \<open>
  \<^verbatim>\<open>Object.prototype\<close> is one object, which all the objects of the program share, and the
  program can add properties to it (the engine does, see \<open>updateAll\<close>). Its state is the
  list \<open>added\<close> of the enumerable properties that it has been given; the twelve members
  stay as the runtime provides them. \<open>objectPrototypeWith added k\<close> is what a plain object
  inherits under the name \<open>k\<close>: the added property of that name, or the member of that
  name, or \<^verbatim>\<open>undefined\<close>. The getter of \<^verbatim>\<open>__proto__\<close> returns the prototype of the object,
  that is \<^verbatim>\<open>Object.prototype\<close> itself, which as a value is the object of its enumerable
  properties.
\<close>

definition objectPrototypeWith :: "doc \<Rightarrow> string \<Rightarrow> jsval" where
  "objectPrototypeWith added k =
     (case ownProp added k of
        Some v \<Rightarrow> v
      | None \<Rightarrow>
          if k = ''__proto__'' then JObj added
          else if k \<in> set memberNames then JFun (Builtin k)
          else JUndef)"

text \<open>
  \<^verbatim>\<open>Object.prototype\<close> as the runtime provides it, in a program that has added nothing to
  it.
\<close>

abbreviation objectPrototype :: "string \<Rightarrow> jsval" where
  "objectPrototype \<equiv> objectPrototypeWith []"

text \<open>
  What a read finds on \<^verbatim>\<open>Object.prototype\<close> itself when it has no added property of that
  name: its members; \<^verbatim>\<open>__proto__\<close> is \<^verbatim>\<open>null\<close> there, for \<^verbatim>\<open>Object.prototype\<close> has no
  prototype.
\<close>

definition objectPrototypeMember :: "string \<Rightarrow> jsval" where
  "objectPrototypeMember k =
     (if k = ''__proto__'' then JNull
      else if k \<in> set memberNames then JFun (Builtin k)
      else JUndef)"

text \<open>
  Every function of the engine that reads a property of a plain object has a first
  argument \<open>inh\<close>: what the object inherits under each name. Its name ends in \<open>In\<close>; the
  name of the source, without \<open>In\<close>, is the function in a program that has added nothing to
  \<^verbatim>\<open>Object.prototype\<close>.
\<close>

text \<open>
  \<^verbatim>\<open>obj[k]\<close> on a plain object: the own property when there is one, and otherwise what the
  object inherits under that name; \<^verbatim>\<open>undefined\<close> when there is neither.
\<close>

definition getPropIn ::
  "(string \<Rightarrow> jsval) \<Rightarrow> doc \<Rightarrow> string \<Rightarrow> jsval" where
  "getPropIn inh obj k = (case ownProp obj k of None \<Rightarrow> inh k | Some v \<Rightarrow> v)"

abbreviation "getProp \<equiv> getPropIn objectPrototype"

text \<open>
  \<^verbatim>\<open>v.k\<close> for a value that the code has already checked to be a plain object (a query, a
  projection, a document being inserted).
\<close>

fun getFieldIn ::
  "(string \<Rightarrow> jsval) \<Rightarrow> jsval \<Rightarrow> string \<Rightarrow> jsval" where
  "getFieldIn inh (JObj kvs) k = getPropIn inh kvs k"
| "getFieldIn inh v k = JUndef"

abbreviation "getField \<equiv> getFieldIn objectPrototype"

text \<open>
  \<^verbatim>\<open>Object.entries(v)\<close>; \<^verbatim>\<open>Object.keys(v)\<close> is the list of its first components. Both raise
  a \<^verbatim>\<open>TypeError\<close> on \<^verbatim>\<open>null\<close> and \<^verbatim>\<open>undefined\<close>; an array has its indices as keys and a
  string its positions; numbers, booleans and functions have no own enumerable property.
\<close>

fun ownEntries :: "jsval \<Rightarrow> exn + (string \<times> jsval) list" where
  "ownEntries JUndef = Inl TypeError"
| "ownEntries JNull = Inl TypeError"
| "ownEntries (JObj kvs) = Inr kvs"
| "ownEntries (JArr xs) = Inr (zip (map showNat [0..<length xs]) xs)"
| "ownEntries (JStr s) = Inr (zip (map showNat [0..<length s]) (map (\<lambda>c. JStr [c]) s))"
| "ownEntries v = Inr []"

text \<open>
  \<^verbatim>\<open>structuredClone(v)\<close>: a deep copy. In a model of values the copy of a value is the
  value itself; the call raises a \<^verbatim>\<open>DataCloneError\<close> on a function, at any depth.
\<close>

fun structuredClone :: "jsval \<Rightarrow> exn + jsval"
  and cloneList :: "jsval list \<Rightarrow> exn + jsval list"
  and cloneProps :: "(string \<times> jsval) list \<Rightarrow> exn + (string \<times> jsval) list" where
  "structuredClone (JFun f) = Inl DataCloneError"
| "structuredClone (JArr xs) = (case cloneList xs of Inl e \<Rightarrow> Inl e | Inr ys \<Rightarrow> Inr (JArr ys))"
| "structuredClone (JObj kvs) =
     (case cloneProps kvs of Inl e \<Rightarrow> Inl e | Inr kvs' \<Rightarrow> Inr (JObj kvs'))"
| "structuredClone JUndef = Inr JUndef"
| "structuredClone JNull = Inr JNull"
| "structuredClone (JBool b) = Inr (JBool b)"
| "structuredClone (JNum n) = Inr (JNum n)"
| "structuredClone (JStr s) = Inr (JStr s)"
| "cloneList [] = Inr []"
| "cloneList (x # xs) =
     (case structuredClone x of Inl e \<Rightarrow> Inl e
      | Inr y \<Rightarrow> (case cloneList xs of Inl e \<Rightarrow> Inl e | Inr ys \<Rightarrow> Inr (y # ys)))"
| "cloneProps [] = Inr []"
| "cloneProps ((k, v) # kvs) =
     (case structuredClone v of Inl e \<Rightarrow> Inl e
      | Inr w \<Rightarrow> (case cloneProps kvs of Inl e \<Rightarrow> Inl e | Inr kvs' \<Rightarrow> Inr ((k, w) # kvs')))"

text \<open>
  The values without a function at any depth: the ones that \<^verbatim>\<open>structuredClone\<close> accepts,
  among them every value that a JSON snapshot can hold.
\<close>

fun isData :: "jsval \<Rightarrow> bool"
  and isDataList :: "jsval list \<Rightarrow> bool"
  and isDataProps :: "(string \<times> jsval) list \<Rightarrow> bool" where
  "isData (JFun f) = False"
| "isData (JArr xs) = isDataList xs"
| "isData (JObj kvs) = isDataProps kvs"
| "isData JUndef = True"
| "isData JNull = True"
| "isData (JBool b) = True"
| "isData (JNum n) = True"
| "isData (JStr s) = True"
| "isDataList [] = True"
| "isDataList (x # xs) = (isData x \<and> isDataList xs)"
| "isDataProps [] = True"
| "isDataProps ((k, v) # kvs) = (isData v \<and> isDataProps kvs)"

section \<open>Query Validator\<close>

text \<open>
  The calls of \<^verbatim>\<open>logError\<close> only emit a diagnostic and never change the control flow;
  they are left out of the model.
\<close>

text \<open>\<^verbatim>\<open>validateOperator(opKey, opVal)\<close>\<close>

definition validateOperator :: "string \<Rightarrow> jsval \<Rightarrow> bool" where
  "validateOperator opKey opVal =
     (if opKey = ''$exists'' then
        \<not> (opVal \<noteq> JBool True \<and> opVal \<noteq> JBool False \<and> opVal \<noteq> JNum 1 \<and> opVal \<noteq> JNum 0)
      else if opKey = ''$lt'' \<or> opKey = ''$lte'' \<or> opKey = ''$gt'' \<or> opKey = ''$gte'' then
        \<not> (typeof opVal \<noteq> ''number'' \<and> typeof opVal \<noteq> ''string'')
      else if opKey = ''$in'' \<or> opKey = ''$nin'' then isArray opVal
      else if opKey = ''$includes'' \<or> opKey = ''$eq'' \<or> opKey = ''$ne'' then True
      else if opKey = ''$like'' then \<not> (typeof opVal \<noteq> ''string'')
      else if opKey = ''$type'' then \<not> (typeof opVal \<noteq> ''string'')
      else False)"

text \<open>
  \<^verbatim>\<open>validateQuery(query)\<close>. The only call that can raise is \<^verbatim>\<open>Object.keys(qVal)\<close> in the
  default branch, which is guarded by \<^verbatim>\<open>typeof qVal === "object"\<close> alone. \<open>validateKeys\<close> is
  the loop over \<^verbatim>\<open>Object.keys(query)\<close> and \<open>validateEvery\<close> is
  \<^verbatim>\<open>qVal.every(qry => validateQuery(qry))\<close>.
\<close>

fun validateQuery :: "jsval \<Rightarrow> exn + bool"
  and validateKeys :: "(string \<times> jsval) list \<Rightarrow> exn + bool"
  and validateEvery :: "jsval list \<Rightarrow> exn + bool" where
  "validateQuery (JObj kvs) = validateKeys kvs"
| "validateQuery JUndef = Inr False"
| "validateQuery JNull = Inr False"
| "validateQuery (JBool b) = Inr False"
| "validateQuery (JNum n) = Inr False"
| "validateQuery (JStr s) = Inr False"
| "validateQuery (JArr xs) = Inr False"
| "validateQuery (JFun f) = Inr False"
| "validateKeys [] = Inr True"
| "validateKeys ((qName, qVal) # rest) =
     (if qName = ''$and'' \<or> qName = ''$or'' then
        (case qVal of
           JArr qs \<Rightarrow>
             (case validateEvery qs of
                Inl e \<Rightarrow> Inl e
              | Inr ok \<Rightarrow> if \<not> ok then Inr False else validateKeys rest)
         | _ \<Rightarrow> Inr False)
      else if qName = ''$not'' then
        (case validateQuery qVal of
           Inl e \<Rightarrow> Inl e
         | Inr ok \<Rightarrow> if \<not> ok then Inr False else validateKeys rest)
      else if qName = ''$where'' then
        (if typeof qVal \<noteq> ''function'' then Inr False else validateKeys rest)
      else if typeof qVal = ''object'' then
        (case ownEntries qVal of
           Inl e \<Rightarrow> Inl e
         | Inr ops \<Rightarrow>
             if \<not> list_all (\<lambda>(opKey, opVal). validateOperator opKey opVal) ops then Inr False
             else validateKeys rest)
      else validateKeys rest)"
| "validateEvery [] = Inr True"
| "validateEvery (q # qs) =
     (case validateQuery q of
        Inl e \<Rightarrow> Inl e
      | Inr ok \<Rightarrow> if \<not> ok then Inr False else validateEvery qs)"

section \<open>Operator Library\<close>

text \<open>
  The guard shared by \<^verbatim>\<open>$lt\<close>, \<^verbatim>\<open>$lte\<close>, \<^verbatim>\<open>$gt\<close> and \<^verbatim>\<open>$gte\<close>: both sides strings or both
  sides numbers, otherwise \<^verbatim>\<open>false\<close>.
\<close>

fun compareBoth ::
  "(int \<Rightarrow> int \<Rightarrow> bool) \<Rightarrow> (string \<Rightarrow> string \<Rightarrow> bool) \<Rightarrow> jsval \<Rightarrow> jsval \<Rightarrow> bool" where
  "compareBoth num str (JStr a) (JStr b) = str a b"
| "compareBoth num str (JNum a) (JNum b) = num a b"
| "compareBoth num str v w = False"

text \<open>
  \<^verbatim>\<open>evalOperator(docVal, opKey, opVal)\<close>. For \<^verbatim>\<open>$in\<close> and \<^verbatim>\<open>$nin\<close> the operand is an array
  whenever the query has passed \<open>validateOperator\<close>; on any other operand the method call
  \<^verbatim>\<open>opVal.includes\<close> is modelled as a \<^verbatim>\<open>TypeError\<close>.
\<close>

definition evalOperator :: "host \<Rightarrow> jsval \<Rightarrow> string \<Rightarrow> jsval \<Rightarrow> exn + bool" where
  "evalOperator h docVal opKey opVal =
     (if opKey = ''$exists'' then
        Inr (if truthy opVal then docVal \<noteq> JUndef else docVal = JUndef)
      else if opKey = ''$lt'' then
        Inr (compareBoth (\<lambda>a b. a < b) (\<lambda>a b. strLess a b) docVal opVal)
      else if opKey = ''$lte'' then
        Inr (compareBoth (\<lambda>a b. a \<le> b) (\<lambda>a b. \<not> strLess b a) docVal opVal)
      else if opKey = ''$gt'' then
        Inr (compareBoth (\<lambda>a b. a > b) (\<lambda>a b. strLess b a) docVal opVal)
      else if opKey = ''$gte'' then
        Inr (compareBoth (\<lambda>a b. a \<ge> b) (\<lambda>a b. \<not> strLess a b) docVal opVal)
      else if opKey = ''$in'' then
        (case opVal of JArr xs \<Rightarrow> Inr (arrIncludes xs docVal) | _ \<Rightarrow> Inl TypeError)
      else if opKey = ''$includes'' then
        (case docVal of
           JStr s \<Rightarrow> Inr (case opVal of JStr sub \<Rightarrow> strIncludes s sub | _ \<Rightarrow> False)
         | JArr xs \<Rightarrow> Inr (arrIncludes xs opVal)
         | _ \<Rightarrow> Inr False)
      else if opKey = ''$nin'' then
        (case opVal of JArr xs \<Rightarrow> Inr (\<not> arrIncludes xs docVal) | _ \<Rightarrow> Inl TypeError)
      else if opKey = ''$eq'' then Inr (strictEq docVal opVal)
      else if opKey = ''$ne'' then Inr (\<not> strictEq docVal opVal)
      else if opKey = ''$like'' then
        (case opVal of
           JStr p \<Rightarrow> (case docVal of JStr s \<Rightarrow> regexp_test h p s | _ \<Rightarrow> Inr False)
         | _ \<Rightarrow> Inr False)
      else if opKey = ''$type'' then
        (if opVal = JStr ''array'' then Inr (isArray docVal)
         else if opVal = JStr ''null'' then Inr (docVal = JNull)
         else Inr (strictEq (JStr (typeof docVal)) opVal))
      else Inr False)"

text \<open>The loop of \<^verbatim>\<open>evalOperatorSet\<close> over the entries of the operator set.\<close>

fun evalOperators :: "host \<Rightarrow> jsval \<Rightarrow> (string \<times> jsval) list \<Rightarrow> exn + bool" where
  "evalOperators h docVal [] = Inr True"
| "evalOperators h docVal ((key, opVal) # rest) =
     (case evalOperator h docVal key opVal of
        Inl e \<Rightarrow> Inl e
      | Inr ok \<Rightarrow> if \<not> ok then Inr False else evalOperators h docVal rest)"

definition evalOperatorSet :: "host \<Rightarrow> jsval \<Rightarrow> jsval \<Rightarrow> exn + bool" where
  "evalOperatorSet h docVal opSet =
     (case ownEntries opSet of Inl e \<Rightarrow> Inl e | Inr ops \<Rightarrow> evalOperators h docVal ops)"

section \<open>Query Evaluator\<close>

text \<open>
  The default branch of the \<^verbatim>\<open>switch\<close> of \<^verbatim>\<open>evalQuery\<close>, for a key that is a field name:
  \<open>True\<close> when the document passes the test of that key.
\<close>

definition evalFieldIn ::
  "(string \<Rightarrow> jsval) \<Rightarrow> host \<Rightarrow> doc \<Rightarrow> string \<Rightarrow> jsval \<Rightarrow> exn + bool" where
  "evalFieldIn inh h doc qName qVal =
     (if typeof qVal = ''object'' then evalOperatorSet h (getPropIn inh doc qName) qVal
      else Inr (strictEq (getPropIn inh doc qName) qVal))"

abbreviation "evalField \<equiv> evalFieldIn objectPrototype"

text \<open>
  The keys of a query that is not a plain object (an array or a string at most, for the
  others have no keys) are array indices, so each of them takes the default branch.
\<close>

fun evalFieldsIn ::
  "(string \<Rightarrow> jsval) \<Rightarrow> host \<Rightarrow> doc \<Rightarrow> (string \<times> jsval) list \<Rightarrow> exn + bool" where
  "evalFieldsIn inh h doc [] = Inr True"
| "evalFieldsIn inh h doc ((qName, qVal) # rest) =
     (case evalFieldIn inh h doc qName qVal of
        Inl e \<Rightarrow> Inl e
      | Inr ok \<Rightarrow> if \<not> ok then Inr False else evalFieldsIn inh h doc rest)"

abbreviation "evalFields \<equiv> evalFieldsIn objectPrototype"

text \<open>
  \<^verbatim>\<open>evalQuery(doc, query)\<close>. \<open>evalKeys\<close> is the loop over the keys of the query, \<open>evalAnd\<close> the
  loop of \<^verbatim>\<open>$and\<close> (\<open>False\<close> at the first rule that does not match) and \<open>evalOr\<close> the loop of
  \<^verbatim>\<open>$or\<close> (\<open>True\<close> at the first rule that matches). \<^verbatim>\<open>for (const qRule of qVal)\<close> raises a
  \<^verbatim>\<open>TypeError\<close> on a value that is not iterable; a string iterates over its characters, each
  of them a query with the single key \<^verbatim>\<open>"0"\<close>. Calling a \<^verbatim>\<open>$where\<close> operand that is not a
  function raises a \<^verbatim>\<open>TypeError\<close>. The validator lets none of these cases through.
\<close>

fun evalQueryIn ::
  "(string \<Rightarrow> jsval) \<Rightarrow> host \<Rightarrow> doc \<Rightarrow> jsval \<Rightarrow> exn + bool"
  and evalKeysIn ::
  "(string \<Rightarrow> jsval) \<Rightarrow> host \<Rightarrow> doc \<Rightarrow> (string \<times> jsval) list \<Rightarrow> exn + bool"
  and evalAndIn ::
  "(string \<Rightarrow> jsval) \<Rightarrow> host \<Rightarrow> doc \<Rightarrow> jsval list \<Rightarrow> exn + bool"
  and evalOrIn ::
  "(string \<Rightarrow> jsval) \<Rightarrow> host \<Rightarrow> doc \<Rightarrow> jsval list \<Rightarrow> exn + bool" where
  "evalQueryIn inh h doc (JObj kvs) = evalKeysIn inh h doc kvs"
| "evalQueryIn inh h doc JUndef = Inl TypeError"
| "evalQueryIn inh h doc JNull = Inl TypeError"
| "evalQueryIn inh h doc (JBool b) = Inr True"
| "evalQueryIn inh h doc (JNum n) = Inr True"
| "evalQueryIn inh h doc (JFun f) = Inr True"
| "evalQueryIn inh h doc (JStr s) =
     evalFieldsIn inh h doc (zip (map showNat [0..<length s]) (map (\<lambda>c. JStr [c]) s))"
| "evalQueryIn inh h doc (JArr xs) = evalFieldsIn inh h doc (zip (map showNat [0..<length xs]) xs)"
| "evalKeysIn inh h doc [] = Inr True"
| "evalKeysIn inh h doc ((qName, qVal) # rest) =
     (if qName = ''$and'' then
        (case qVal of
           JArr qs \<Rightarrow>
             (case evalAndIn inh h doc qs of
                Inl e \<Rightarrow> Inl e
              | Inr ok \<Rightarrow> if \<not> ok then Inr False else evalKeysIn inh h doc rest)
         | JStr s \<Rightarrow>
             if \<not> list_all (\<lambda>c. strictEq (getPropIn inh doc ''0'') (JStr [c])) s then Inr False
             else evalKeysIn inh h doc rest
         | _ \<Rightarrow> Inl TypeError)
      else if qName = ''$or'' then
        (case qVal of
           JArr qs \<Rightarrow>
             (case evalOrIn inh h doc qs of
                Inl e \<Rightarrow> Inl e
              | Inr isMatch \<Rightarrow> if \<not> isMatch then Inr False else evalKeysIn inh h doc rest)
         | JStr s \<Rightarrow>
             if \<not> list_ex (\<lambda>c. strictEq (getPropIn inh doc ''0'') (JStr [c])) s then Inr False
             else evalKeysIn inh h doc rest
         | _ \<Rightarrow> Inl TypeError)
      else if qName = ''$not'' then
        (case evalQueryIn inh h doc qVal of
           Inl e \<Rightarrow> Inl e
         | Inr m \<Rightarrow> if m then Inr False else evalKeysIn inh h doc rest)
      else if qName = ''$where'' then
        (case qVal of
           JFun f \<Rightarrow>
             (case call_fn h f doc of
                Inl e \<Rightarrow> Inl e
              | Inr r \<Rightarrow> if \<not> truthy r then Inr False else evalKeysIn inh h doc rest)
         | _ \<Rightarrow> Inl TypeError)
      else
        (case evalFieldIn inh h doc qName qVal of
           Inl e \<Rightarrow> Inl e
         | Inr ok \<Rightarrow> if \<not> ok then Inr False else evalKeysIn inh h doc rest))"
| "evalAndIn inh h doc [] = Inr True"
| "evalAndIn inh h doc (q # qs) =
     (case evalQueryIn inh h doc q of
        Inl e \<Rightarrow> Inl e
      | Inr m \<Rightarrow> if \<not> m then Inr False else evalAndIn inh h doc qs)"
| "evalOrIn inh h doc [] = Inr False"
| "evalOrIn inh h doc (q # qs) =
     (case evalQueryIn inh h doc q of
        Inl e \<Rightarrow> Inl e
      | Inr m \<Rightarrow> if m then Inr True else evalOrIn inh h doc qs)"

abbreviation "evalQuery \<equiv> evalQueryIn objectPrototype"
abbreviation "evalKeys \<equiv> evalKeysIn objectPrototype"
abbreviation "evalAnd \<equiv> evalAndIn objectPrototype"
abbreviation "evalOr \<equiv> evalOrIn objectPrototype"

section \<open>Matching a query against a store\<close>

text \<open>
  \<^verbatim>\<open>db[id]\<close>: the store is a plain object too, so the read returns the document stored under
  \<open>i\<close> when \<open>i\<close> is a key of the store, and otherwise what the store inherits under that
  name.
\<close>

definition dbReadIn ::
  "(string \<Rightarrow> jsval) \<Rightarrow> docmap \<Rightarrow> string \<Rightarrow> jsval" where
  "dbReadIn inh db i = (case ownProp db i of None \<Rightarrow> inh i | Some doc \<Rightarrow> JObj doc)"

abbreviation "dbRead \<equiv> dbReadIn objectPrototype"

text \<open>
  The general path of \<^verbatim>\<open>dbQuery\<close>: the loop over \<^verbatim>\<open>Object.keys(db)\<close> that evaluates the
  query on \<^verbatim>\<open>db[id]\<close> and collects the ids that match. (The keys of \<open>db\<close> are its own keys,
  so \<^verbatim>\<open>db[id]\<close> is a document; the \<open>None\<close> case is not reached.)
\<close>

fun scanIdsIn ::
  "(string \<Rightarrow> jsval) \<Rightarrow> host \<Rightarrow> docmap \<Rightarrow> string list \<Rightarrow> jsval \<Rightarrow> exn + string list" where
  "scanIdsIn inh h db [] query = Inr []"
| "scanIdsIn inh h db (i # rest) query =
     (case ownProp db i of
        None \<Rightarrow> Inl TypeError
      | Some doc \<Rightarrow>
          (case evalQueryIn inh h doc query of
             Inl e \<Rightarrow> Inl e
           | Inr m \<Rightarrow>
               (case scanIdsIn inh h db rest query of
                  Inl e \<Rightarrow> Inl e
                | Inr ids \<Rightarrow> Inr (if m then i # ids else ids))))"

abbreviation "scanIds \<equiv> scanIdsIn objectPrototype"

definition scanQueryIn ::
  "(string \<Rightarrow> jsval) \<Rightarrow> host \<Rightarrow> docmap \<Rightarrow> jsval \<Rightarrow> exn + string list" where
  "scanQueryIn inh h db query = scanIdsIn inh h db (map fst db) query"

abbreviation "scanQuery \<equiv> scanQueryIn objectPrototype"

text \<open>
  \<^verbatim>\<open>dbQuery(db, query)\<close>. For a query whose only key is \<^verbatim>\<open>_id\<close>, with a string, the code
  does not scan: it returns \<^verbatim>\<open>db[query._id] ? [query._id] : []\<close>.
\<close>

definition dbQueryIn ::
  "(string \<Rightarrow> jsval) \<Rightarrow> host \<Rightarrow> docmap \<Rightarrow> jsval \<Rightarrow> exn + string list" where
  "dbQueryIn inh h db query =
     (case validateQuery query of
        Inl e \<Rightarrow> Inl e
      | Inr valid \<Rightarrow>
          if \<not> valid then Inr []
          else
            (case ownEntries query of
               Inl e \<Rightarrow> Inl e
             | Inr kvs \<Rightarrow>
                 let queryKeys = map fst kvs in
                 if length queryKeys = 0 then Inr (map fst db)
                 else
                   (case getFieldIn inh query ''_id'' of
                      JStr i \<Rightarrow>
                        if length queryKeys = 1
                        then Inr (if truthy (dbReadIn inh db i) then [i] else [])
                        else scanQueryIn inh h db query
                    | _ \<Rightarrow> scanQueryIn inh h db query)))"

abbreviation "dbQuery \<equiv> dbQueryIn objectPrototype"

text \<open>
  The general path of \<^verbatim>\<open>dbQueryOne\<close>: the loop returns the first id whose document
  matches, and the empty string when there is none.
\<close>

fun scanFirstIn ::
  "(string \<Rightarrow> jsval) \<Rightarrow> host \<Rightarrow> docmap \<Rightarrow> string list \<Rightarrow> jsval \<Rightarrow> exn + string" where
  "scanFirstIn inh h db [] query = Inr []"
| "scanFirstIn inh h db (i # rest) query =
     (case ownProp db i of
        None \<Rightarrow> Inl TypeError
      | Some doc \<Rightarrow>
          (case evalQueryIn inh h doc query of
             Inl e \<Rightarrow> Inl e
           | Inr m \<Rightarrow> if m then Inr i else scanFirstIn inh h db rest query))"

abbreviation "scanFirst \<equiv> scanFirstIn objectPrototype"

definition scanQueryOneIn ::
  "(string \<Rightarrow> jsval) \<Rightarrow> host \<Rightarrow> docmap \<Rightarrow> jsval \<Rightarrow> exn + string" where
  "scanQueryOneIn inh h db query = scanFirstIn inh h db (map fst db) query"

abbreviation "scanQueryOne \<equiv> scanQueryOneIn objectPrototype"

text \<open>\<^verbatim>\<open>dbQueryOne(db, query)\<close>: the empty string stands for no match.\<close>

definition dbQueryOneIn ::
  "(string \<Rightarrow> jsval) \<Rightarrow> host \<Rightarrow> docmap \<Rightarrow> jsval \<Rightarrow> exn + string" where
  "dbQueryOneIn inh h db query =
     (case validateQuery query of
        Inl e \<Rightarrow> Inl e
      | Inr valid \<Rightarrow>
          if \<not> valid then Inr []
          else
            (case ownEntries query of
               Inl e \<Rightarrow> Inl e
             | Inr kvs \<Rightarrow>
                 let queryKeys = map fst kvs in
                 (case getFieldIn inh query ''_id'' of
                    JStr i \<Rightarrow>
                      if length queryKeys = 1
                      then Inr (if truthy (dbReadIn inh db i) then i else [])
                      else scanQueryOneIn inh h db query
                  | _ \<Rightarrow> scanQueryOneIn inh h db query)))"

abbreviation "dbQueryOne \<equiv> dbQueryOneIn objectPrototype"

section \<open>Projection Engine\<close>

text \<open>
  The loop of the inclusive mode, over the keys of the projection:
  \<^verbatim>\<open>output[key] = structuredClone(doc[key])\<close>. A field that the document neither has nor
  inherits is read as \<^verbatim>\<open>undefined\<close>, cloned and assigned like the others.
\<close>

fun projectInclusiveIn ::
  "(string \<Rightarrow> jsval) \<Rightarrow> doc \<Rightarrow> string list \<Rightarrow> doc \<Rightarrow> exn + doc" where
  "projectInclusiveIn inh doc [] output = Inr output"
| "projectInclusiveIn inh doc (key # keys) output =
     (case structuredClone (getPropIn inh doc key) of
        Inl e \<Rightarrow> Inl e
      | Inr v \<Rightarrow> projectInclusiveIn inh doc keys (putProp output key v))"

abbreviation "projectInclusive \<equiv> projectInclusiveIn objectPrototype"

text \<open>
  The loop of the exclusive mode, over the keys of the document: a field is copied when
  \<^verbatim>\<open>projection[key] === undefined\<close>.
\<close>

fun projectExclusiveIn ::
  "(string \<Rightarrow> jsval) \<Rightarrow> doc \<Rightarrow> doc \<Rightarrow> string list \<Rightarrow> doc \<Rightarrow> exn + doc" where
  "projectExclusiveIn inh doc projection [] output = Inr output"
| "projectExclusiveIn inh doc projection (key # keys) output =
     (if getPropIn inh projection key = JUndef then
        (case structuredClone (getPropIn inh doc key) of
           Inl e \<Rightarrow> Inl e
         | Inr v \<Rightarrow> projectExclusiveIn inh doc projection keys (putProp output key v))
      else projectExclusiveIn inh doc projection keys output)"

abbreviation "projectExclusive \<equiv> projectExclusiveIn objectPrototype"

text \<open>
  \<^verbatim>\<open>dbProjection(doc, projection)\<close>; \<open>None\<close> is the result \<^verbatim>\<open>undefined\<close> of a rejected
  projection.
\<close>

fun dbProjectionIn ::
  "(string \<Rightarrow> jsval) \<Rightarrow> doc \<Rightarrow> jsval \<Rightarrow> exn + doc option" where
  "dbProjectionIn inh doc (JObj projection) =
     (let projKeys = map fst projection in
      if length projKeys = 0 then
        (case cloneProps doc of Inl e \<Rightarrow> Inl e | Inr d \<Rightarrow> Inr (Some d))
      else
        let inclusiveKeysCount = length (filter truthy (map snd projection)) in
        if inclusiveKeysCount > 0 \<and> inclusiveKeysCount \<noteq> length projKeys then Inr None
        else if inclusiveKeysCount > 0 then
          (case projectInclusiveIn inh doc projKeys [] of Inl e \<Rightarrow> Inl e | Inr out \<Rightarrow> Inr (Some out))
        else
          (case projectExclusiveIn inh doc projection (map fst doc) [] of
             Inl e \<Rightarrow> Inl e
           | Inr out \<Rightarrow> Inr (Some out)))"
| "dbProjectionIn inh doc v = Inr None"

abbreviation "dbProjection \<equiv> dbProjectionIn objectPrototype"

section \<open>Id Generator\<close>

definition alphabet :: string where
  "alphabet = ''abcdefghijklmnopqrstuvwxyzABCDEFGHIJKLMNOPQRSTUVWXYZ0123456789_''"

text \<open>
  The random source is the sequence \<open>rnd\<close> of the values that the successive calls of
  \<^verbatim>\<open>Math.random()\<close> return, each of them in \<open>[0, 1)\<close>, and the number \<open>pos\<close> of calls made
  so far. \<open>pick r\<close> is what one draw \<open>r\<close> contributes to the joined string:
  \<^verbatim>\<open>alphabet[Math.floor(r * alphabet.length)]\<close>, where a read outside the alphabet is
  \<^verbatim>\<open>undefined\<close>, which \<^verbatim>\<open>join\<close> renders as the empty string. The product is exact here; the
  rounding of the floating-point product is not modelled.
\<close>

definition pick :: "real \<Rightarrow> string" where
  "pick r =
     (let i = \<lfloor>r * real (length alphabet)\<rfloor>
      in if 0 \<le> i \<and> i < int (length alphabet) then [alphabet ! nat i] else [])"

text \<open>\<^verbatim>\<open>uid(len)\<close>, drawing the values \<open>rnd pos, \<dots>, rnd (pos + len - 1)\<close>.\<close>

definition uid :: "(nat \<Rightarrow> real) \<Rightarrow> nat \<Rightarrow> nat \<Rightarrow> string" where
  "uid rnd pos len = concat (map (\<lambda>i. pick (rnd (pos + i))) [0..<len])"

text \<open>
  \<^verbatim>\<open>makeId(db)\<close> draws again for as long as the id is taken, which need not end: \<open>None\<close>
  is the run that never returns. The result is the id and the new position of the random
  source. The test of the code is \<^verbatim>\<open>db[id] === undefined\<close>; an id of 16 characters of the
  alphabet is taken when it is a key of the store. (Four members of \<^verbatim>\<open>Object.prototype\<close>,
  \<^verbatim>\<open>__defineGetter__\<close> and its three siblings, have such a name; on a draw of one of them
  the code draws once more, which the model leaves out.)
\<close>

partial_function (option) makeId :: "(nat \<Rightarrow> real) \<Rightarrow> nat \<Rightarrow> docmap \<Rightarrow> (string \<times> nat) option" where
  "makeId rnd pos db =
     (if ownProp db (uid rnd pos 16) = None then Some (uid rnd pos 16, pos + 16)
      else makeId rnd (pos + 16) db)"

section \<open>Insertion\<close>

text \<open>
  \<^verbatim>\<open>insertDocWithId(db, doc)\<close>, with \<open>i\<close> the value of \<^verbatim>\<open>doc._id\<close>. The id is refused when
  \<^verbatim>\<open>db[id]\<close> is truthy: when it is a key of the store (a stored document is an object, hence
  truthy) and when it is the name of a member of \<^verbatim>\<open>Object.prototype\<close>. The result is the
  store and the returned id, or the exception raised.
\<close>

definition insertDocWithIdIn ::
  "(string \<Rightarrow> jsval) \<Rightarrow> docmap \<Rightarrow> doc \<Rightarrow> string \<Rightarrow> docmap \<times> (exn + string)" where
  "insertDocWithIdIn inh db doc i =
     (if truthy (dbReadIn inh db i) then (db, Inr [])
      else
        (case cloneProps doc of
           Inl e \<Rightarrow> (db, Inl e)
         | Inr d \<Rightarrow> (putProp db i d, Inr i)))"

abbreviation "insertDocWithId \<equiv> insertDocWithIdIn objectPrototype"

text \<open>\<^verbatim>\<open>insertDoc(db, doc)\<close>\<close>

definition insertDoc ::
  "(nat \<Rightarrow> real) \<Rightarrow> nat \<Rightarrow> docmap \<Rightarrow> doc \<Rightarrow> ((docmap \<times> (exn + string)) \<times> nat) option" where
  "insertDoc rnd pos db doc =
     (case makeId rnd pos db of
        None \<Rightarrow> None
      | Some (i, pos') \<Rightarrow>
          (case cloneProps doc of
             Inl e \<Rightarrow> Some ((db, Inl e), pos')
           | Inr d \<Rightarrow> Some ((putProp db i (putProp d ''_id'' (JStr i)), Inr i), pos')))"

text \<open>\<^verbatim>\<open>dbInsert(db, doc)\<close>: the empty string is the failure sentinel.\<close>

fun dbInsertIn ::
  "(string \<Rightarrow> jsval) \<Rightarrow> (nat \<Rightarrow> real) \<Rightarrow> nat \<Rightarrow> docmap \<Rightarrow> jsval \<Rightarrow> ((docmap \<times> (exn + string)) \<times> nat) option" where
  "dbInsertIn inh rnd pos db (JObj doc) =
     (case getPropIn inh doc ''_id'' of
        JStr i \<Rightarrow>
          if length i > 0 then Some (insertDocWithIdIn inh db doc i, pos)
          else insertDoc rnd pos db doc
      | _ \<Rightarrow> insertDoc rnd pos db doc)"
| "dbInsertIn inh rnd pos db v = Some ((db, Inr []), pos)"

abbreviation "dbInsert \<equiv> dbInsertIn objectPrototype"

section \<open>Update Engine\<close>

text \<open>
  The document is mutated in place, so that an exception leaves it as the steps before
  have made it. A run of the engine therefore ends in a state, the document and
  \<^verbatim>\<open>numUpdated\<close>, together with the exception that ended it, if any.

  Each of the five functions below is the body of one \<^verbatim>\<open>for\<close> loop of \<^verbatim>\<open>dbUpdate\<close>, for one
  entry \<^verbatim>\<open>[field, operand]\<close>. The only call that can raise in them is
  \<^verbatim>\<open>structuredClone\<close>, and it is evaluated before the document is written.

  \<^verbatim>\<open>doc[field].push(v)\<close> changes the array in place. When the array is not a property of
  the document but one that it inherits, the array that changes belongs to
  \<^verbatim>\<open>Object.prototype\<close>, which the step cannot return: the run is not modelled. (No member
  that the runtime provides is an array.)
\<close>

fun incStepIn ::
  "(string \<Rightarrow> jsval) \<Rightarrow> doc \<Rightarrow> nat \<Rightarrow> string \<times> jsval \<Rightarrow> exn + doc \<times> nat" where
  "incStepIn inh doc numUpdated (field, JNum delta) =
     (case getPropIn inh doc field of
        JNum n \<Rightarrow> Inr (putProp doc field (JNum (n + delta)), 1)
      | JUndef \<Rightarrow> Inr (putProp doc field (JNum delta), 1)
      | _ \<Rightarrow> Inr (doc, numUpdated))"
| "incStepIn inh doc numUpdated (field, delta) = Inr (doc, numUpdated)"

abbreviation "incStep \<equiv> incStepIn objectPrototype"

fun pushStepIn ::
  "(string \<Rightarrow> jsval) \<Rightarrow> doc \<Rightarrow> nat \<Rightarrow> string \<times> jsval \<Rightarrow> exn + doc \<times> nat" where
  "pushStepIn inh doc numUpdated (field, val) =
     (if getPropIn inh doc field = JUndef then
        (case structuredClone val of
           Inl e \<Rightarrow> Inl e
         | Inr v \<Rightarrow> Inr (putProp doc field (JArr [v]), 1))
      else
        (case getPropIn inh doc field of
           JArr xs \<Rightarrow>
             (case structuredClone val of
                Inl e \<Rightarrow> Inl e
              | Inr v \<Rightarrow>
                  if hasKey doc field then Inr (putProp doc field (JArr (xs @ [v])), 1)
                  else Inl Unmodelled)
         | _ \<Rightarrow> Inr (doc, numUpdated)))"

abbreviation "pushStep \<equiv> pushStepIn objectPrototype"

fun renameStepIn ::
  "(string \<Rightarrow> jsval) \<Rightarrow> doc \<Rightarrow> nat \<Rightarrow> string \<times> jsval \<Rightarrow> exn + doc \<times> nat" where
  "renameStepIn inh doc numUpdated (field, JStr newName) =
     (if field = ''_id'' then Inr (doc, numUpdated)
      else if getPropIn inh doc newName \<noteq> JUndef then Inr (doc, numUpdated)
      else if getPropIn inh doc field \<noteq> JUndef then
        (case structuredClone (getPropIn inh doc field) of
           Inl e \<Rightarrow> Inl e
         | Inr v \<Rightarrow> Inr (deleteProp (putProp doc newName v) field, 1))
      else Inr (doc, numUpdated))"
| "renameStepIn inh doc numUpdated (field, newName) = Inr (doc, numUpdated)"

abbreviation "renameStep \<equiv> renameStepIn objectPrototype"

fun setStep :: "doc \<Rightarrow> nat \<Rightarrow> string \<times> jsval \<Rightarrow> exn + doc \<times> nat" where
  "setStep doc numUpdated (field, val) =
     (if field = ''_id'' then Inr (doc, numUpdated)
      else
        (case structuredClone val of
           Inl e \<Rightarrow> Inl e
         | Inr v \<Rightarrow> Inr (putProp doc field v, 1)))"

fun unsetStepIn ::
  "(string \<Rightarrow> jsval) \<Rightarrow> doc \<Rightarrow> nat \<Rightarrow> string \<times> jsval \<Rightarrow> exn + doc \<times> nat" where
  "unsetStepIn inh doc numUpdated (field, flag) =
     (if field = ''_id'' then Inr (doc, numUpdated)
      else if getPropIn inh doc field \<noteq> JUndef \<and> truthy flag then Inr (deleteProp doc field, 1)
      else Inr (doc, numUpdated))"

abbreviation "unsetStep \<equiv> unsetStepIn objectPrototype"

text \<open>The \<^verbatim>\<open>for\<close> loop over the entries of one operand.\<close>

fun forEntries ::
  "(doc \<Rightarrow> nat \<Rightarrow> string \<times> jsval \<Rightarrow> exn + doc \<times> nat) \<Rightarrow> doc \<Rightarrow> nat \<Rightarrow> (string \<times> jsval) list
     \<Rightarrow> (doc \<times> nat) \<times> exn option" where
  "forEntries step doc numUpdated [] = ((doc, numUpdated), None)"
| "forEntries step doc numUpdated (entry # rest) =
     (case step doc numUpdated entry of
        Inl e \<Rightarrow> ((doc, numUpdated), Some e)
      | Inr (doc', numUpdated') \<Rightarrow> forEntries step doc' numUpdated' rest)"

text \<open>
  The step that the \<^verbatim>\<open>switch\<close> of \<^verbatim>\<open>dbUpdate\<close> selects for an operator; \<open>None\<close> is the
  default branch, which only logs.
\<close>

definition stepOfIn ::
  "(string \<Rightarrow> jsval) \<Rightarrow> string \<Rightarrow> (doc \<Rightarrow> nat \<Rightarrow> string \<times> jsval \<Rightarrow> exn + doc \<times> nat) option" where
  "stepOfIn inh operator =
     (if operator = ''$inc'' then Some (incStepIn inh)
      else if operator = ''$push'' then Some (pushStepIn inh)
      else if operator = ''$rename'' then Some (renameStepIn inh)
      else if operator = ''$set'' then Some setStep
      else if operator = ''$unset'' then Some (unsetStepIn inh)
      else None)"

abbreviation "stepOf \<equiv> stepOfIn objectPrototype"

text \<open>One round of the loop over the operators: \<^verbatim>\<open>Object.entries(operand)\<close>, then its loop.\<close>

definition applyOperatorIn ::
  "(string \<Rightarrow> jsval) \<Rightarrow> doc \<Rightarrow> nat \<Rightarrow> string \<times> jsval \<Rightarrow> (doc \<times> nat) \<times> exn option" where
  "applyOperatorIn inh doc numUpdated opr =
     (case stepOfIn inh (fst opr) of
        None \<Rightarrow> ((doc, numUpdated), None)
      | Some step \<Rightarrow>
          (case ownEntries (snd opr) of
             Inl e \<Rightarrow> ((doc, numUpdated), Some e)
           | Inr entries \<Rightarrow> forEntries step doc numUpdated entries))"

abbreviation "applyOperator \<equiv> applyOperatorIn objectPrototype"

fun forOperatorsIn ::
  "(string \<Rightarrow> jsval) \<Rightarrow> doc \<Rightarrow> nat \<Rightarrow> (string \<times> jsval) list \<Rightarrow> (doc \<times> nat) \<times> exn option" where
  "forOperatorsIn inh doc numUpdated [] = ((doc, numUpdated), None)"
| "forOperatorsIn inh doc numUpdated (opr # rest) =
     (case applyOperatorIn inh doc numUpdated opr of
        ((doc', numUpdated'), Some e) \<Rightarrow> ((doc', numUpdated'), Some e)
      | ((doc', numUpdated'), None) \<Rightarrow> forOperatorsIn inh doc' numUpdated' rest)"

abbreviation "forOperators \<equiv> forOperatorsIn objectPrototype"

text \<open>
  \<^verbatim>\<open>dbUpdate(doc, update)\<close>: the document and \<^verbatim>\<open>numUpdated\<close> at the end of the run, and the
  exception that ended it, if any; without one, \<^verbatim>\<open>numUpdated\<close> is the value returned.
\<close>

fun dbUpdateIn ::
  "(string \<Rightarrow> jsval) \<Rightarrow> doc \<Rightarrow> jsval \<Rightarrow> (doc \<times> nat) \<times> exn option" where
  "dbUpdateIn inh doc (JObj update) =
     (if length (map fst update) = 0 then ((doc, 0), None)
      else forOperatorsIn inh doc 0 update)"
| "dbUpdateIn inh doc v = ((doc, 0), None)"

abbreviation "dbUpdate \<equiv> dbUpdateIn objectPrototype"

section \<open>Collection\<close>

text \<open>
  The methods of \<^verbatim>\<open>JsonDB\<close>, on the store \<^verbatim>\<open>this.docMap\<close>. A method that changes the store
  returns it; \<open>saved\<close> tells whether the method has called \<^verbatim>\<open>this.save()\<close>, whose effect
  on the file system is outside the model.
\<close>

record 'a outcome =
  store :: docmap
  result :: "exn + 'a"
  saved :: bool

text \<open>
  \<^verbatim>\<open>options?.name\<close> as a condition, for the names \<^verbatim>\<open>multi\<close> and \<^verbatim>\<open>skipSave\<close>. On a value
  that is not an object (a boolean, a number, a string, an array, a function) the read
  goes through the prototype of that kind of value, which has no property of either name,
  to \<^verbatim>\<open>Object.prototype\<close>.
\<close>

fun optionFlagIn ::
  "(string \<Rightarrow> jsval) \<Rightarrow> jsval \<Rightarrow> string \<Rightarrow> bool" where
  "optionFlagIn inh JUndef name = False"
| "optionFlagIn inh JNull name = False"
| "optionFlagIn inh (JObj kvs) name = truthy (getPropIn inh kvs name)"
| "optionFlagIn inh v name = truthy (inh name)"

abbreviation "optionFlag \<equiv> optionFlagIn objectPrototype"

definition JsonDB_countIn ::
  "(string \<Rightarrow> jsval) \<Rightarrow> host \<Rightarrow> docmap \<Rightarrow> jsval \<Rightarrow> exn + nat" where
  "JsonDB_countIn inh h db query =
     (case dbQueryIn inh h db query of Inl e \<Rightarrow> Inl e | Inr ids \<Rightarrow> Inr (length ids))"

abbreviation "JsonDB_count \<equiv> JsonDB_countIn objectPrototype"

text \<open>
  \<^verbatim>\<open>dbProjection(this.docMap[id], projection)\<close>. The ids come from \<open>dbQuery\<close> and
  \<open>dbQueryOne\<close>: \<^verbatim>\<open>this.docMap[id]\<close> is a stored document, or, after the direct lookup of an
  id that is not a key of the store, a member of \<^verbatim>\<open>Object.prototype\<close>. On a function,
  \<open>dbProjection\<close> returns \<^verbatim>\<open>undefined\<close> for a projection that it rejects, raises the
  \<^verbatim>\<open>DataCloneError\<close> of \<^verbatim>\<open>structuredClone(doc)\<close> for the empty projection and returns an empty
  object in the exclusive mode (a function has no enumerable property); the inclusive mode
  reads the properties of the function, which are not modelled. On a plain object that
  was added to \<^verbatim>\<open>Object.prototype\<close> the projection is that of a document. On any other
  value \<open>dbProjection\<close> returns no document, and the model ends there.
\<close>

fun projectTargetIn ::
  "(string \<Rightarrow> jsval) \<Rightarrow> jsval \<Rightarrow> jsval \<Rightarrow> exn + doc option" where
  "projectTargetIn inh (JObj doc) projection = dbProjectionIn inh doc projection"
| "projectTargetIn inh (JFun f) (JObj projection) =
     (let projKeys = map fst projection in
      if length projKeys = 0 then Inl DataCloneError
      else
        let inclusiveKeysCount = length (filter truthy (map snd projection)) in
        if inclusiveKeysCount > 0 \<and> inclusiveKeysCount \<noteq> length projKeys then Inr None
        else if inclusiveKeysCount > 0 then Inl Unmodelled
        else Inr (Some []))"
| "projectTargetIn inh (JFun f) v = Inr None"
| "projectTargetIn inh v projection = Inl Unmodelled"

abbreviation "projectTarget \<equiv> projectTargetIn objectPrototype"

text \<open>
  The projection of \<^verbatim>\<open>this.docMap[id]\<close>. For the id \<^verbatim>\<open>__proto__\<close> that is not a key of the
  store the target is \<^verbatim>\<open>Object.prototype\<close> itself: its enumerable properties are the
  added ones, and the reads of the inclusive mode are those of \<open>objectPrototypeMember\<close>.
\<close>

definition projectStoredIn ::
  "(string \<Rightarrow> jsval) \<Rightarrow> docmap \<Rightarrow> jsval \<Rightarrow> string \<Rightarrow> exn + doc option" where
  "projectStoredIn inh db projection i =
     (case ownProp db i of
        Some doc \<Rightarrow> dbProjectionIn inh doc projection
      | None \<Rightarrow>
          (case inh i of
             JObj props \<Rightarrow>
               dbProjectionIn (if i = ''__proto__'' then objectPrototypeMember else inh)
                 props projection
           | v \<Rightarrow> projectTargetIn inh v projection))"

abbreviation "projectStored \<equiv> projectStoredIn objectPrototype"

text \<open>\<^verbatim>\<open>ids.map((id) => dbProjection(this.docMap[id], projection))\<close>\<close>

fun projectAllIn ::
  "(string \<Rightarrow> jsval) \<Rightarrow> docmap \<Rightarrow> jsval \<Rightarrow> string list \<Rightarrow> exn + doc option list" where
  "projectAllIn inh db projection [] = Inr []"
| "projectAllIn inh db projection (i # rest) =
     (case projectStoredIn inh db projection i of
        Inl e \<Rightarrow> Inl e
      | Inr d \<Rightarrow>
          (case projectAllIn inh db projection rest of
             Inl e \<Rightarrow> Inl e
           | Inr ds \<Rightarrow> Inr (d # ds)))"

abbreviation "projectAll \<equiv> projectAllIn objectPrototype"

text \<open>The default \<^verbatim>\<open>projection = {}\<close> of \<^verbatim>\<open>find\<close> and \<^verbatim>\<open>findOne\<close>.\<close>

definition defaultProjection :: "jsval \<Rightarrow> jsval" where
  "defaultProjection projection = (if projection = JUndef then JObj [] else projection)"

definition JsonDB_findIn ::
  "(string \<Rightarrow> jsval) \<Rightarrow> host \<Rightarrow> docmap \<Rightarrow> jsval \<Rightarrow> jsval \<Rightarrow> exn + doc option list" where
  "JsonDB_findIn inh h db query projection =
     (case dbQueryIn inh h db query of
        Inl e \<Rightarrow> Inl e
      | Inr ids \<Rightarrow> projectAllIn inh db (defaultProjection projection) ids)"

abbreviation "JsonDB_find \<equiv> JsonDB_findIn objectPrototype"

definition JsonDB_findOneIn ::
  "(string \<Rightarrow> jsval) \<Rightarrow> host \<Rightarrow> docmap \<Rightarrow> jsval \<Rightarrow> jsval \<Rightarrow> exn + doc option" where
  "JsonDB_findOneIn inh h db query projection =
     (case dbQueryOneIn inh h db query of
        Inl e \<Rightarrow> Inl e
      | Inr i \<Rightarrow>
          if i = [] then Inr None
          else projectStoredIn inh db (defaultProjection projection) i)"

abbreviation "JsonDB_findOne \<equiv> JsonDB_findOneIn objectPrototype"

text \<open>\<^verbatim>\<open>insert(doc, options)\<close>, with the random source as in \<open>makeId\<close>.\<close>

definition JsonDB_insertIn ::
  "(string \<Rightarrow> jsval) \<Rightarrow> (nat \<Rightarrow> real) \<Rightarrow> nat \<Rightarrow> docmap \<Rightarrow> jsval \<Rightarrow> jsval \<Rightarrow> (string outcome \<times> nat) option" where
  "JsonDB_insertIn inh rnd pos db doc options =
     (case dbInsertIn inh rnd pos db doc of
        None \<Rightarrow> None
      | Some ((db', r), pos') \<Rightarrow>
          Some (\<lparr>store = db', result = r,
                  saved = (case r of Inl e \<Rightarrow> False
                           | Inr i \<Rightarrow> i \<noteq> [] \<and> \<not> optionFlagIn inh options ''skipSave'')\<rparr>, pos'))"

abbreviation "JsonDB_insert \<equiv> JsonDB_insertIn objectPrototype"

text \<open>The loop \<^verbatim>\<open>for (const id of ids) delete this.docMap[id]\<close>.\<close>

fun deleteAll :: "docmap \<Rightarrow> string list \<Rightarrow> docmap" where
  "deleteAll db [] = db"
| "deleteAll db (i # rest) = deleteAll (deleteProp db i) rest"

text \<open>\<^verbatim>\<open>remove(query, options)\<close>\<close>

definition JsonDB_removeIn ::
  "(string \<Rightarrow> jsval) \<Rightarrow> host \<Rightarrow> docmap \<Rightarrow> jsval \<Rightarrow> jsval \<Rightarrow> nat outcome" where
  "JsonDB_removeIn inh h db query options =
     (case dbQueryIn inh h db query of
        Inl e \<Rightarrow> \<lparr>store = db, result = Inl e, saved = False\<rparr>
      | Inr ids \<Rightarrow>
          if length ids = 0 then \<lparr>store = db, result = Inr 0, saved = False\<rparr>
          else if length ids > 1 \<and> \<not> optionFlagIn inh options ''multi'' then
            \<lparr>store = db, result = Inr 0, saved = False\<rparr>
          else
            \<lparr>store = deleteAll db ids, result = Inr (length ids),
              saved = (\<not> optionFlagIn inh options ''skipSave'')\<rparr>)"

abbreviation "JsonDB_remove \<equiv> JsonDB_removeIn objectPrototype"

text \<open>
  The names of the fields that an update reads or writes: the keys of its operands, and
  the new names of \<^verbatim>\<open>$rename\<close>.
\<close>

definition newNames :: "(string \<times> jsval) list \<Rightarrow> string list" where
  "newNames entries =
     concat (map (\<lambda>entry. case snd entry of JStr newName \<Rightarrow> [newName] | _ \<Rightarrow> []) entries)"

definition operatorNames :: "string \<times> jsval \<Rightarrow> string list" where
  "operatorNames opr =
     (case ownEntries (snd opr) of
        Inl e \<Rightarrow> []
      | Inr entries \<Rightarrow>
          map fst entries @ (if fst opr = ''$rename'' then newNames entries else []))"

fun updateNames :: "jsval \<Rightarrow> string list" where
  "updateNames (JObj update) = concat (map operatorNames update)"
| "updateNames v = []"

text \<open>
  The loop \<^verbatim>\<open>numUpdated += dbUpdate(this.docMap[id], update)\<close>. The state is
  \<^verbatim>\<open>Object.prototype\<close>, the store and \<^verbatim>\<open>numUpdated\<close>. A document is mutated inside the
  store, also when the update ends in an exception.

  An id that is not a key of the store is one that the direct lookup of \<open>dbQuery\<close> has
  returned: \<^verbatim>\<open>this.docMap[id]\<close> is then a property of \<^verbatim>\<open>Object.prototype\<close>, and \<open>dbUpdate\<close>
  runs on it.

  \<^item> An update that is not a plain object, or has no operator, is rejected before the target
    is looked at and counts \<open>0\<close>.
  \<^item> For the id \<^verbatim>\<open>__proto__\<close> the target is \<^verbatim>\<open>Object.prototype\<close> itself, and the update is
    applied to it as to a document: to the list of its added properties, with a read that
    finds its members. The properties that the update creates, changes and deletes are
    properties of \<^verbatim>\<open>Object.prototype\<close>, which every plain object inherits from then on. An
    update that names one of the twelve members is not modelled: it would rewrite or delete
    what the runtime provides.
  \<^item> For any other id the target is a function (\<^verbatim>\<open>Object\<close> for the id \<^verbatim>\<open>constructor\<close>) or a
    value that the program has added to \<^verbatim>\<open>Object.prototype\<close>; the run is not modelled.
\<close>

fun updateAllIn ::
  "doc \<Rightarrow> docmap \<Rightarrow> jsval \<Rightarrow> nat \<Rightarrow> string list \<Rightarrow> (doc \<times> docmap \<times> nat) \<times> exn option" where
  "updateAllIn added db update numUpdated [] = ((added, db, numUpdated), None)"
| "updateAllIn added db update numUpdated (i # rest) =
     (case ownProp db i of
        Some doc \<Rightarrow>
          (case dbUpdateIn (objectPrototypeWith added) doc update of
             ((doc', n), Some e) \<Rightarrow> ((added, putProp db i doc', numUpdated), Some e)
           | ((doc', n), None) \<Rightarrow>
               updateAllIn added (putProp db i doc') update (numUpdated + n) rest)
      | None \<Rightarrow>
          (case update of
             JObj (opr # oprs) \<Rightarrow>
               if i = ''__proto__'' \<and> \<not> hasKey added ''__proto__''
                  \<and> \<not> list_ex (\<lambda>k. k \<in> set memberNames) (updateNames update)
               then
                 (case dbUpdateIn objectPrototypeMember added update of
                    ((added', n), Some e) \<Rightarrow> ((added', db, numUpdated), Some e)
                  | ((added', n), None) \<Rightarrow>
                      updateAllIn added' db update (numUpdated + n) rest)
               else ((added, db, numUpdated), Some Unmodelled)
           | _ \<Rightarrow> updateAllIn added db update numUpdated rest))"

text \<open>
  \<^verbatim>\<open>update(query, update, options)\<close>, in a program whose \<^verbatim>\<open>Object.prototype\<close> has the added
  properties \<open>added\<close>. The result has one more field than the one of the other methods:
  the properties of \<^verbatim>\<open>Object.prototype\<close> after the call. The option \<^verbatim>\<open>skipSave\<close> is read
  after the loop.
\<close>

record 'a updateOutcome = "'a outcome" +
  prototypeAfter :: doc

definition JsonDB_updateIn ::
  "doc \<Rightarrow> host \<Rightarrow> docmap \<Rightarrow> jsval \<Rightarrow> jsval \<Rightarrow> jsval \<Rightarrow> nat updateOutcome" where
  "JsonDB_updateIn added h db query upd options =
     (case dbQueryIn (objectPrototypeWith added) h db query of
        Inl e \<Rightarrow> \<lparr>store = db, result = Inl e, saved = False, prototypeAfter = added\<rparr>
      | Inr ids \<Rightarrow>
          if length ids = 0 then
            \<lparr>store = db, result = Inr 0, saved = False, prototypeAfter = added\<rparr>
          else if length ids > 1 \<and> \<not> optionFlagIn (objectPrototypeWith added) options ''multi''
          then \<lparr>store = db, result = Inr 0, saved = False, prototypeAfter = added\<rparr>
          else
            (case updateAllIn added db upd 0 ids of
               ((added', db', numUpdated), Some e) \<Rightarrow>
                 \<lparr>store = db', result = Inl e, saved = False, prototypeAfter = added'\<rparr>
             | ((added', db', numUpdated), None) \<Rightarrow>
                 \<lparr>store = db', result = Inr numUpdated,
                   saved = (numUpdated > 0
                            \<and> \<not> optionFlagIn (objectPrototypeWith added') options ''skipSave''),
                   prototypeAfter = added'\<rparr>))"

abbreviation "updateAll \<equiv> updateAllIn []"
abbreviation "JsonDB_update \<equiv> JsonDB_updateIn []"

section \<open>Notions used by the properties\<close>

text \<open>
  A store is well formed when its keys are distinct and every document is stored under
  its \<^verbatim>\<open>_id\<close>, a non-empty string; the \<^verbatim>\<open>_id\<close> is a field of the document itself (the
  snapshot of the store, \<^verbatim>\<open>JSON.stringify(this.docMap)\<close>, holds no other).
\<close>

definition storeInv :: "docmap \<Rightarrow> bool" where
  "storeInv db =
     (distinct (map fst db) \<and>
      list_all (\<lambda>(k, doc). k \<noteq> [] \<and> ownProp doc ''_id'' = Some (JStr k)) db)"

text \<open>The random source respects the contract of \<^verbatim>\<open>Math.random()\<close>.\<close>

definition unitInterval :: "(nat \<Rightarrow> real) \<Rightarrow> bool" where
  "unitInterval rnd = (\<forall>n. 0 \<le> rnd n \<and> rnd n < 1)"

text \<open>
  One operation of the collection, whatever its arguments and whether it returns or
  raises, takes a state of the program to another: a state is the list of the properties
  added to \<^verbatim>\<open>Object.prototype\<close> and the store. An update whose run is not modelled is no
  step.
\<close>

inductive opStep :: "host \<Rightarrow> doc \<times> docmap \<Rightarrow> doc \<times> docmap \<Rightarrow> bool" where
  stepInsert:
    "unitInterval rnd \<Longrightarrow>
     JsonDB_insertIn (objectPrototypeWith added) rnd pos db doc options = Some (out, pos') \<Longrightarrow>
     opStep h (added, db) (added, store out)"
| stepRemove:
    "opStep h (added, db)
       (added, store (JsonDB_removeIn (objectPrototypeWith added) h db query options))"
| stepUpdate:
    "result (JsonDB_updateIn added h db query upd options) \<noteq> Inl Unmodelled \<Longrightarrow>
     opStep h (added, db)
       (prototypeAfter (JsonDB_updateIn added h db query upd options),
        store (JsonDB_updateIn added h db query upd options))"

text \<open>The states that a sequence of operations can reach from a state.\<close>

inductive reachable :: "host \<Rightarrow> doc \<times> docmap \<Rightarrow> doc \<times> docmap \<Rightarrow> bool" where
  reachRefl: "reachable h s s"
| reachStep: "reachable h s s' \<Longrightarrow> opStep h s' s'' \<Longrightarrow> reachable h s s''"

text \<open>
  When a sub-operation succeeds: the per-field rules of the five operators, as the
  specification of the Update Engine states them, for the operator, the document as the
  sub-operation finds it and the entry \<^verbatim>\<open>[f, v]\<close> of the operand.

  \<^item> \<^verbatim>\<open>$inc\<close>: the delta is numeric, and \<open>f\<close> is absent or numeric.
  \<^item> \<^verbatim>\<open>$push\<close>: \<open>f\<close> is absent or an array.
  \<^item> \<^verbatim>\<open>$rename\<close>: \<open>f\<close> is not \<^verbatim>\<open>_id\<close>, the new name is a string and does not exist yet, and
    \<open>f\<close> exists.
  \<^item> \<^verbatim>\<open>$set\<close>: \<open>f\<close> is not \<^verbatim>\<open>_id\<close>.
  \<^item> \<^verbatim>\<open>$unset\<close>: \<open>f\<close> is not \<^verbatim>\<open>_id\<close>, it exists and the flag is truthy.

  A field is absent when \<^verbatim>\<open>doc[f]\<close> is \<^verbatim>\<open>undefined\<close> and exists otherwise. The value that
  \<^verbatim>\<open>$push\<close>, \<^verbatim>\<open>$rename\<close> and \<^verbatim>\<open>$set\<close> store is a deep copy, which only data has: on any other
  value the sub-operation does not succeed (the copy raises).
\<close>

definition subOperationSucceedsIn ::
  "(string \<Rightarrow> jsval) \<Rightarrow> string \<Rightarrow> doc \<Rightarrow> string \<times> jsval \<Rightarrow> bool" where
  "subOperationSucceedsIn inh operator doc entry =
     (let f = fst entry; v = snd entry in
      if operator = ''$inc'' then
        typeof v = ''number''
        \<and> (getPropIn inh doc f = JUndef \<or> typeof (getPropIn inh doc f) = ''number'')
      else if operator = ''$push'' then
        (getPropIn inh doc f = JUndef \<or> isArray (getPropIn inh doc f)) \<and> isData v
      else if operator = ''$rename'' then
        f \<noteq> ''_id''
        \<and> (case v of JStr newName \<Rightarrow> getPropIn inh doc newName = JUndef | _ \<Rightarrow> False)
        \<and> getPropIn inh doc f \<noteq> JUndef \<and> isData (getPropIn inh doc f)
      else if operator = ''$set'' then f \<noteq> ''_id'' \<and> isData v
      else if operator = ''$unset'' then f \<noteq> ''_id'' \<and> getPropIn inh doc f \<noteq> JUndef \<and> truthy v
      else False)"

abbreviation "subOperationSucceeds \<equiv> subOperationSucceedsIn objectPrototype"

text \<open>
  The sub-operations that a run of \<open>dbUpdate\<close> reaches, in order: each with its operator,
  the document as the sub-operation finds it, and its entry. \<open>entriesReached\<close>,
  \<open>operatorReached\<close> and \<open>operatorsReached\<close> follow the loops of \<open>dbUpdate\<close>; a run that
  an exception ends reaches nothing after it.
\<close>

fun entriesReached ::
  "(doc \<Rightarrow> nat \<Rightarrow> string \<times> jsval \<Rightarrow> exn + doc \<times> nat) \<Rightarrow> string \<Rightarrow> doc \<Rightarrow> (string \<times> jsval) list
     \<Rightarrow> (string \<times> doc \<times> (string \<times> jsval)) list" where
  "entriesReached step operator doc [] = []"
| "entriesReached step operator doc (entry # rest) =
     (operator, doc, entry) #
       (case step doc 0 entry of
          Inl e \<Rightarrow> []
        | Inr (doc', n) \<Rightarrow> entriesReached step operator doc' rest)"

definition operatorReachedIn ::
  "(string \<Rightarrow> jsval) \<Rightarrow> doc \<Rightarrow> string \<times> jsval \<Rightarrow> (string \<times> doc \<times> (string \<times> jsval)) list" where
  "operatorReachedIn inh doc opr =
     (case stepOfIn inh (fst opr) of
        None \<Rightarrow> []
      | Some step \<Rightarrow>
          (case ownEntries (snd opr) of
             Inl e \<Rightarrow> []
           | Inr entries \<Rightarrow> entriesReached step (fst opr) doc entries))"

abbreviation "operatorReached \<equiv> operatorReachedIn objectPrototype"

fun operatorsReachedIn ::
  "(string \<Rightarrow> jsval) \<Rightarrow> doc \<Rightarrow> (string \<times> jsval) list \<Rightarrow> (string \<times> doc \<times> (string \<times> jsval)) list" where
  "operatorsReachedIn inh doc [] = []"
| "operatorsReachedIn inh doc (opr # rest) =
     operatorReachedIn inh doc opr @
       (case applyOperatorIn inh doc 0 opr of
          ((doc', n), Some e) \<Rightarrow> []
        | ((doc', n), None) \<Rightarrow> operatorsReachedIn inh doc' rest)"

abbreviation "operatorsReached \<equiv> operatorsReachedIn objectPrototype"

fun subOperationsIn ::
  "(string \<Rightarrow> jsval) \<Rightarrow> doc \<Rightarrow> jsval \<Rightarrow> (string \<times> doc \<times> (string \<times> jsval)) list" where
  "subOperationsIn inh doc (JObj update) = operatorsReachedIn inh doc update"
| "subOperationsIn inh doc v = []"

abbreviation "subOperations \<equiv> subOperationsIn objectPrototype"

text \<open>The document and the value of \<^verbatim>\<open>numUpdated\<close> at the end of a run of \<open>dbUpdate\<close>.\<close>

definition docAfter :: "(doc \<times> nat) \<times> exn option \<Rightarrow> doc" where
  "docAfter run = fst (fst run)"

definition flagAfter :: "(doc \<times> nat) \<times> exn option \<Rightarrow> nat" where
  "flagAfter run = snd (fst run)"

text \<open>
  The change flag that \<open>dbUpdate\<close> computes for \<^verbatim>\<open>this.docMap[i]\<close>, in a program that has
  added nothing to \<^verbatim>\<open>Object.prototype\<close>: for the document stored under \<open>i\<close> when \<open>i\<close> is a
  key of the store, and otherwise for \<^verbatim>\<open>Object.prototype\<close> when \<open>i\<close> is \<^verbatim>\<open>__proto__\<close>.
\<close>

definition flagOf :: "docmap \<Rightarrow> jsval \<Rightarrow> string \<Rightarrow> nat" where
  "flagOf db upd i =
     (case ownProp db i of
        Some doc \<Rightarrow> flagAfter (dbUpdate doc upd)
      | None \<Rightarrow>
          if i = ''__proto__'' then flagAfter (dbUpdateIn objectPrototypeMember [] upd)
          else 0)"

text \<open>The values that pass \<^verbatim>\<open>typeof v === "object" && !Array.isArray(v) && v !== null\<close>.\<close>

fun isPlainObject :: "jsval \<Rightarrow> bool" where
  "isPlainObject (JObj kvs) = True"
| "isPlainObject v = False"

text \<open>The values without \<^verbatim>\<open>null\<close> at any depth.\<close>

fun nullFree :: "jsval \<Rightarrow> bool"
  and nullFreeList :: "jsval list \<Rightarrow> bool"
  and nullFreeProps :: "(string \<times> jsval) list \<Rightarrow> bool" where
  "nullFree JNull = False"
| "nullFree (JArr xs) = nullFreeList xs"
| "nullFree (JObj kvs) = nullFreeProps kvs"
| "nullFree JUndef = True"
| "nullFree (JBool b) = True"
| "nullFree (JNum n) = True"
| "nullFree (JStr s) = True"
| "nullFree (JFun f) = True"
| "nullFreeList [] = True"
| "nullFreeList (x # xs) = (nullFree x \<and> nullFreeList xs)"
| "nullFreeProps [] = True"
| "nullFreeProps ((k, v) # kvs) = (nullFree v \<and> nullFreeProps kvs)"

text \<open>A host whose patterns are all well formed and whose functions all return.\<close>

definition hostTotal :: "host \<Rightarrow> bool" where
  "hostTotal h = ((\<forall>p s. \<not> isl (regexp_test h p s)) \<and> (\<forall>f d. \<not> isl (call_fn h f d)))"

section \<open>Example inputs\<close>

text \<open>
  A host whose patterns are literal strings, except for the malformed pattern \<^verbatim>\<open>"("\<close>, and
  whose functions all return \<^verbatim>\<open>true\<close>.
\<close>

definition exampleHost :: host where
  "exampleHost =
     \<lparr>regexp_test = (\<lambda>p s. if p = ''('' then Inl SyntaxError else Inr (strIncludes s p)),
      call_fn = (\<lambda>f d. Inr (JBool True))\<rparr>"

text \<open>The store of \<^verbatim>\<open>src/tests/query.test.mjs\<close>.\<close>

definition exampleStore :: docmap where
  "exampleStore =
     [(''1'', [(''_id'', JStr ''1''), (''name'', JStr ''foo''), (''val'', JNum 1),
               (''vals'', JArr [JNum 1])]),
      (''2'', [(''_id'', JStr ''2''), (''name'', JStr ''bar''), (''val'', JNum 2),
               (''vals'', JArr [JNum 1, JNum 2])]),
      (''3'', [(''_id'', JStr ''3''), (''name'', JStr ''baz''), (''val'', JNum 3),
               (''vals'', JArr [JNum 1, JNum 2, JNum 3])])]"

section \<open>Properties of objects\<close>

lemma keys_replaceProp [simp]: "map fst (replaceProp obj k v) = map fst obj"
  by (induction obj) auto

lemma map_of_replaceProp:
  "map_of (replaceProp obj k v) k' =
     (if k' = k then map_option (\<lambda>x. v) (map_of obj k) else map_of obj k')"
  by (induction obj) auto

lemma set_replaceProp:
  "distinct (map fst obj) \<Longrightarrow> k \<in> set (map fst obj) \<Longrightarrow>
   set (replaceProp obj k v) = insert (k, v) {p \<in> set obj. fst p \<noteq> k}"
proof (induction obj)
  case Nil
  then show ?case by simp
next
  case (Cons p obj)
  obtain k' v' where p: "p = (k', v')" by (cases p)
  show ?case
  proof (cases "k' = k")
    case True
    with Cons.prems p have "\<forall>q \<in> set obj. fst q \<noteq> k" by auto
    with True p show ?thesis by auto
  next
    case False
    with Cons p show ?thesis by auto
  qed
qed

lemma set_insertIndex [simp]: "set (insertIndex obj k v) = insert (k, v) (set obj)"
  by (induction obj) (auto split: if_splits)

lemma distinct_insertIndex:
  "k \<notin> set (map fst obj) \<Longrightarrow> distinct (map fst obj) \<Longrightarrow>
   distinct (map fst (insertIndex obj k v))"
  by (induction obj) (auto simp: image_iff)

lemma map_of_insertIndex:
  "map_of (insertIndex obj k v) k' = (if k' = k then Some v else map_of obj k')"
  by (induction obj) auto

lemma map_of_append_new:
  "k \<notin> set (map fst obj) \<Longrightarrow>
   map_of (obj @ [(k, v)]) k' = (if k' = k then Some v else map_of obj k')"
  by (induction obj) auto

lemma ownProp_putProp:
  "ownProp (putProp obj k v) k' = (if k' = k then Some v else ownProp obj k')"
proof (cases "hasKey obj k")
  case True
  then have "map_of obj k \<noteq> None"
    by (simp add: hasKey_def map_of_eq_None_iff)
  then obtain x where "map_of obj k = Some x" by auto
  with True show ?thesis
    by (simp add: ownProp_def putProp_def map_of_replaceProp)
next
  case False
  then show ?thesis
    by (simp add: ownProp_def putProp_def map_of_insertIndex map_of_append_new hasKey_def
        del: map_of_append)
qed

lemma getProp_putProp:
  "getPropIn inh (putProp obj k v) k' = (if k' = k then v else getPropIn inh obj k')"
  by (simp add: getPropIn_def ownProp_putProp)

lemma keys_putProp: "set (map fst (putProp obj k v)) = insert k (set (map fst obj))"
proof (cases "hasKey obj k")
  case True
  then show ?thesis by (auto simp: putProp_def hasKey_def)
next
  case False
  then show ?thesis by (auto simp: putProp_def)
qed

lemma distinct_putProp:
  "distinct (map fst obj) \<Longrightarrow> distinct (map fst (putProp obj k v))"
  by (simp add: putProp_def hasKey_def distinct_insertIndex)

lemma set_putProp:
  "distinct (map fst obj) \<Longrightarrow>
   set (putProp obj k v) = insert (k, v) {p \<in> set obj. fst p \<noteq> k}"
  by (auto simp: putProp_def hasKey_def set_replaceProp image_iff rev_image_eqI)


lemma ownProp_deleteProp:
  "ownProp (deleteProp obj k) k' = (if k' = k then None else ownProp obj k')"
  by (induction obj) (auto simp: ownProp_def deleteProp_def)

lemma getProp_deleteProp:
  "getPropIn inh (deleteProp obj k) k' = (if k' = k then inh k else getPropIn inh obj k')"
  by (simp add: getPropIn_def ownProp_deleteProp)

lemma ownProp_None_iff: "ownProp obj k = None \<longleftrightarrow> \<not> hasKey obj k"
  by (simp add: ownProp_def hasKey_def map_of_eq_None_iff)

lemma ownProp_Nil [simp]: "ownProp [] k = None"
  by (simp add: ownProp_def)

lemma objectPrototype_id [simp]: "objectPrototype ''_id'' = JUndef"
  by (simp add: objectPrototypeWith_def memberNames_def)

lemma objectPrototype_member:
  "objectPrototype k = JUndef \<or> objectPrototype k = JObj [] \<or> objectPrototype k = JFun (Builtin k)"
  by (simp add: objectPrototypeWith_def)

lemma objectPrototype_not_array [simp]: "objectPrototype k \<noteq> JArr xs"
  using objectPrototype_member [of k] by auto

lemma objectPrototypeMember_not_array [simp]: "objectPrototypeMember k \<noteq> JArr xs"
  by (simp add: objectPrototypeMember_def)


lemma getProp_own:
  "hasKey obj k \<Longrightarrow> \<exists>v. ownProp obj k = Some v \<and> getPropIn inh obj k = v"
  using ownProp_None_iff [of obj k] by (cases "ownProp obj k") (auto simp: getPropIn_def)

lemma getProp_ownProp: "ownProp obj k = Some v \<Longrightarrow> getPropIn inh obj k = v"
  by (simp add: getPropIn_def)

lemma dbRead_key: "hasKey db i \<Longrightarrow> truthy (dbReadIn inh db i)"
  using ownProp_None_iff [of db i] by (cases "ownProp db i") (auto simp: dbReadIn_def)

lemma dbRead_inherited: "\<not> hasKey db i \<Longrightarrow> dbReadIn inh db i = inh i"
  by (simp add: dbReadIn_def ownProp_None_iff [symmetric])

lemma distinct_deleteProp:
  "distinct (map fst obj) \<Longrightarrow> distinct (map fst (deleteProp obj k))"
  by (simp add: deleteProp_def distinct_map_filter)

lemma set_deleteProp: "set (deleteProp obj k) = {p \<in> set obj. fst p \<noteq> k}"
  by (auto simp: deleteProp_def)

lemma deleteAll_filter: "deleteAll db ids = filter (\<lambda>(k, d). k \<notin> set ids) db"
proof (induction ids arbitrary: db)
  case Nil
  then show ?case by simp
next
  case (Cons i ids)
  show ?case
    by (simp add: Cons.IH deleteProp_def case_prod_unfold conj_commute)
qed

section \<open>Properties of the query operations\<close>

subsection \<open>Malformed queries\<close>

text \<open>
  C1. The claim is that no query value makes \<^verbatim>\<open>count\<close>, \<^verbatim>\<open>find\<close>, \<^verbatim>\<open>findOne\<close> or
  \<^verbatim>\<open>dbQuery\<close> raise. The code does raise: on the query \<^verbatim>\<open>{a: null}\<close>, whatever the store,
  \<open>validateQuery\<close> passes the guard \<^verbatim>\<open>typeof qVal === "object"\<close> and calls
  \<^verbatim>\<open>Object.keys(null)\<close>, and the \<^verbatim>\<open>TypeError\<close> leaves each of the four operations.
\<close>

theorem query_null_operand_raises:
  "dbQuery h db (JObj [(''a'', JNull)]) = Inl TypeError
   \<and> JsonDB_count h db (JObj [(''a'', JNull)]) = Inl TypeError
   \<and> JsonDB_find h db (JObj [(''a'', JNull)]) projection = Inl TypeError
   \<and> JsonDB_findOne h db (JObj [(''a'', JNull)]) projection = Inl TypeError"
  by (simp add: dbQueryIn_def dbQueryOneIn_def JsonDB_countIn_def JsonDB_findIn_def JsonDB_findOneIn_def)

text \<open>
  A \<^verbatim>\<open>$like\<close> operand passes the validator as soon as it is a string. When it is not a
  well-formed pattern, the \<^verbatim>\<open>SyntaxError\<close> of \<^verbatim>\<open>new RegExp\<close> leaves \<open>dbQuery\<close> as soon as a
  document has a string in that field.
\<close>

lemma like_malformed_pattern_raises:
  assumes "regexp_test h p s = Inl SyntaxError"
  shows "dbQuery h [(k, [(''name'', JStr s)])] (JObj [(''name'', JObj [(''$like'', JStr p)])])
           = Inl SyntaxError"
  using assms
  by (simp add: dbQueryIn_def validateOperator_def scanQueryIn_def ownProp_def getPropIn_def
      evalFieldIn_def evalOperatorSet_def evalOperator_def)

text \<open>A query that is not a plain object is rejected and matches nothing.\<close>

lemma non_object_query_is_empty:
  "\<not> isPlainObject query \<Longrightarrow> dbQuery h db query = Inr []"
  by (cases query) (simp_all add: dbQueryIn_def)

subsection \<open>The operator \<^verbatim>\<open>$type\<close>\<close>

text \<open>
  C3. The claim is that \<^verbatim>\<open>$type\<close> with the operand \<^verbatim>\<open>"object"\<close> is false on an array and on
  \<^verbatim>\<open>null\<close>. In the code the operands \<^verbatim>\<open>"array"\<close> and \<^verbatim>\<open>"null"\<close> have a branch of their own
  and every other operand is compared with \<^verbatim>\<open>typeof docVal\<close>, which is \<^verbatim>\<open>"object"\<close> for
  arrays and for \<^verbatim>\<open>null\<close>: the operator holds on every array and on \<^verbatim>\<open>null\<close>, and the query
  \<^verbatim>\<open>{vals: {$type: "object"}}\<close> selects a document whose \<^verbatim>\<open>vals\<close> is the array \<^verbatim>\<open>[1]\<close>.
\<close>

theorem type_object_matches_array_and_null:
  "evalOperator h (JArr xs) ''$type'' (JStr ''object'') = Inr True
   \<and> evalOperator h JNull ''$type'' (JStr ''object'') = Inr True
   \<and> dbQuery h [(''1'', [(''_id'', JStr ''1''), (''vals'', JArr [JNum 1])])]
        (JObj [(''vals'', JObj [(''$type'', JStr ''object'')])]) = Inr [''1'']"
  by (simp add: dbQueryIn_def validateOperator_def scanQueryIn_def ownProp_def getPropIn_def
      evalFieldIn_def evalOperatorSet_def evalOperator_def)

text \<open>On the other operands the operator tells the variants apart.\<close>

lemma type_operator_table:
  "evalOperator h v ''$type'' (JStr ''array'') = Inr (isArray v)"
  "evalOperator h v ''$type'' (JStr ''null'') = Inr (v = JNull)"
  "evalOperator h v ''$type'' (JStr ''number'') = Inr (\<exists>n. v = JNum n)"
  "evalOperator h v ''$type'' (JStr ''string'') = Inr (\<exists>s. v = JStr s)"
  "evalOperator h v ''$type'' (JStr ''boolean'') = Inr (\<exists>b. v = JBool b)"
  "evalOperator h v ''$type'' (JStr ''object'') = Inr (v = JNull \<or> isArray v \<or> isPlainObject v)"
  by (cases v; simp add: evalOperator_def)+

subsection \<open>Lookup by \<^verbatim>\<open>_id\<close>\<close>

lemma strictEq_JStr [simp]: "strictEq v (JStr s) = (v = JStr s)"
  by (cases v) auto

lemma ownProp_Some:
  "distinct (map fst obj) \<Longrightarrow> (k, v) \<in> set obj \<Longrightarrow> ownProp obj k = Some v"
  by (simp add: ownProp_def)

lemma storeInv_id:
  "storeInv db \<Longrightarrow> (k, d) \<in> set db \<Longrightarrow> getPropIn inh d ''_id'' = JStr k \<and> k \<noteq> []"
  by (auto simp: storeInv_def list_all_iff getProp_ownProp)

lemma eval_id_query:
  "evalQuery h d (JObj [(''_id'', JStr i)]) = Inr (getProp d ''_id'' = JStr i)"
  by (simp add: evalFieldIn_def)

lemma filter_eq_distinct:
  "distinct ks \<Longrightarrow> filter (\<lambda>k. k = i) ks = (if i \<in> set ks then [i] else [])"
  by (induction ks) auto

lemma scanIds_id_query:
  assumes "storeInv db" and "set ks \<subseteq> set (map fst db)"
  shows "scanIds h db ks (JObj [(''_id'', JStr i)]) = Inr (filter (\<lambda>k. k = i) ks)"
  using assms(2)
proof (induction ks)
  case Nil
  then show ?case by simp
next
  case (Cons k ks)
  then obtain d where d: "(k, d) \<in> set db" by auto
  with assms(1) have look: "ownProp db k = Some d"
    by (simp add: ownProp_Some storeInv_def)
  from assms(1) d have "getProp d ''_id'' = JStr k" by (simp add: storeInv_id)
  with Cons look show ?case
    by (simp add: eval_id_query del: evalQueryIn.simps)
qed

lemma scanFirst_id_query:
  assumes "storeInv db" and "set ks \<subseteq> set (map fst db)"
  shows "scanFirst h db ks (JObj [(''_id'', JStr i)]) = Inr (if i \<in> set ks then i else [])"
  using assms(2)
proof (induction ks)
  case Nil
  then show ?case by simp
next
  case (Cons k ks)
  then obtain d where d: "(k, d) \<in> set db" by auto
  with assms(1) have look: "ownProp db k = Some d"
    by (simp add: ownProp_Some storeInv_def)
  from assms(1) d have "getProp d ''_id'' = JStr k" by (simp add: storeInv_id)
  with Cons look show ?case
    by (auto simp add: eval_id_query simp del: evalQueryIn.simps)
qed

lemma exampleStore_inv: "storeInv exampleStore"
  by (simp add: storeInv_def exampleStore_def ownProp_def)

text \<open>
  The direct lookup that \<open>dbQuery\<close> and \<open>dbQueryOne\<close> take for the query \<^verbatim>\<open>{_id: i}\<close>
  returns \<open>i\<close> when \<open>i\<close> is a key of the store, and also when it is the name of a member of
  \<^verbatim>\<open>Object.prototype\<close>.
\<close>

lemma id_query_direct_lookup:
  "dbQuery h db (JObj [(''_id'', JStr i)])
     = Inr (if hasKey db i \<or> truthy (objectPrototype i) then [i] else [])"
  "dbQueryOne h db (JObj [(''_id'', JStr i)])
     = Inr (if hasKey db i \<or> truthy (objectPrototype i) then i else [])"
proof -
  have "truthy (dbRead db i) = (hasKey db i \<or> truthy (objectPrototype i))"
    by (cases "hasKey db i") (simp_all add: dbRead_key dbRead_inherited)
  then show "dbQuery h db (JObj [(''_id'', JStr i)])
     = Inr (if hasKey db i \<or> truthy (objectPrototype i) then [i] else [])"
    and "dbQueryOne h db (JObj [(''_id'', JStr i)])
     = Inr (if hasKey db i \<or> truthy (objectPrototype i) then i else [])"
    by (simp_all add: dbQueryIn_def dbQueryOneIn_def getPropIn_def ownProp_def)
qed

text \<open>
  In a well-formed store, the query \<^verbatim>\<open>{_id: i}\<close> matches the document stored under the key
  \<open>k\<close> exactly when \<open>k = i\<close>, and the scan that evaluates the query on every document
  returns \<open>[i]\<close> when \<open>i\<close> is a key of the store and the empty list otherwise. For an \<open>i\<close>
  that is not the name of a member of \<^verbatim>\<open>Object.prototype\<close>, the direct lookup returns the
  same.
\<close>

lemma id_query_scan:
  assumes "storeInv db"
  shows "list_all (\<lambda>(k, d). evalQuery h d (JObj [(''_id'', JStr i)]) = Inr (k = i)) db"
    and "scanQuery h db (JObj [(''_id'', JStr i)]) = Inr (if hasKey db i then [i] else [])"
    and "scanQueryOne h db (JObj [(''_id'', JStr i)]) = Inr (if hasKey db i then i else [])"
proof -
  show "list_all (\<lambda>(k, d). evalQuery h d (JObj [(''_id'', JStr i)]) = Inr (k = i)) db"
    using assms storeInv_id [where inh = objectPrototype and db = db]
    by (auto simp: list_all_iff eval_id_query simp del: evalQueryIn.simps)
  from assms have dist: "distinct (map fst db)" by (simp add: storeInv_def)
  show "scanQuery h db (JObj [(''_id'', JStr i)]) = Inr (if hasKey db i then [i] else [])"
    using scanIds_id_query [OF assms subset_refl, of h i] dist
    by (simp add: scanQueryIn_def filter_eq_distinct hasKey_def)
  show "scanQueryOne h db (JObj [(''_id'', JStr i)]) = Inr (if hasKey db i then i else [])"
    using scanFirst_id_query [OF assms subset_refl, of h i]
    by (simp add: scanQueryOneIn_def hasKey_def)
qed

lemma id_query_paths_agree:
  assumes "storeInv db" and "\<not> truthy (objectPrototype i)"
  shows "scanQuery h db (JObj [(''_id'', JStr i)]) = dbQuery h db (JObj [(''_id'', JStr i)])"
    and "scanQueryOne h db (JObj [(''_id'', JStr i)]) = dbQueryOne h db (JObj [(''_id'', JStr i)])"
  using assms by (simp_all add: id_query_scan id_query_direct_lookup)

text \<open>
  C2. The claim is that the query \<^verbatim>\<open>{_id: i}\<close> matches iff \<open>i\<close> is a key of the store, and
  that the direct lookup returns what the evaluation of the query on every document
  returns. The lookup of the code is \<^verbatim>\<open>db[query._id] ? [query._id] : []\<close>, and \<^verbatim>\<open>db[i]\<close> is
  truthy for every name that \<^verbatim>\<open>Object.prototype\<close> defines. So for every store \<open>dbQuery\<close>
  returns \<^verbatim>\<open>["constructor"]\<close> on the query \<^verbatim>\<open>{_id: "constructor"}\<close>, and \<open>dbQueryOne\<close> returns
  \<^verbatim>\<open>"constructor"\<close>; in the store of the tests, which has no such key, the scan of the
  documents returns no match, and \<^verbatim>\<open>count\<close> returns \<open>1\<close> for a query that no document
  matches.
\<close>

theorem id_query_inherited_name_matches:
  "dbQuery h db (JObj [(''_id'', JStr ''constructor'')]) = Inr [''constructor'']
   \<and> dbQueryOne h db (JObj [(''_id'', JStr ''constructor'')]) = Inr ''constructor''
   \<and> \<not> hasKey exampleStore ''constructor''
   \<and> list_all (\<lambda>(k, d). evalQuery h d (JObj [(''_id'', JStr ''constructor'')]) = Inr False)
        exampleStore
   \<and> scanQuery h exampleStore (JObj [(''_id'', JStr ''constructor'')]) = Inr []
   \<and> scanQueryOne h exampleStore (JObj [(''_id'', JStr ''constructor'')]) = Inr []
   \<and> JsonDB_count h exampleStore (JObj [(''_id'', JStr ''constructor'')]) = Inr 1"
proof -
  have t: "truthy (objectPrototype ''constructor'')" by (simp add: objectPrototypeWith_def memberNames_def)
  have n: "\<not> hasKey exampleStore ''constructor''"
    by (simp add: hasKey_def exampleStore_def)
  have e: "list_all (\<lambda>(k, d). evalQuery h d (JObj [(''_id'', JStr ''constructor'')]) = Inr False)
        exampleStore"
    by (simp add: exampleStore_def eval_id_query getPropIn_def ownProp_def del: evalQueryIn.simps)
  from t have q: "dbQuery h db (JObj [(''_id'', JStr ''constructor'')]) = Inr [''constructor'']"
    and q1: "dbQueryOne h db (JObj [(''_id'', JStr ''constructor'')]) = Inr ''constructor''"
    by (simp_all add: id_query_direct_lookup)
  from q have c: "JsonDB_count h exampleStore (JObj [(''_id'', JStr ''constructor'')]) = Inr 1"
    by (simp add: JsonDB_countIn_def id_query_direct_lookup t)
  from n have s: "scanQuery h exampleStore (JObj [(''_id'', JStr ''constructor'')]) = Inr []"
    and s1: "scanQueryOne h exampleStore (JObj [(''_id'', JStr ''constructor'')]) = Inr []"
    by (simp_all add: id_query_scan [OF exampleStore_inv])
  from q q1 n e s s1 c show ?thesis by simp
qed

text \<open>
  The same lookup makes \<^verbatim>\<open>find\<close> and \<^verbatim>\<open>findOne\<close> raise: they project \<^verbatim>\<open>this.docMap[id]\<close>,
  here the function \<^verbatim>\<open>Object\<close>, and \<^verbatim>\<open>structuredClone\<close> raises on a function.
\<close>

lemma find_inherited_name_raises:
  assumes "\<not> hasKey db ''constructor''"
  shows "JsonDB_find h db (JObj [(''_id'', JStr ''constructor'')]) JUndef = Inl DataCloneError"
    and "JsonDB_findOne h db (JObj [(''_id'', JStr ''constructor'')]) JUndef = Inl DataCloneError"
proof -
  have t: "truthy (objectPrototype ''constructor'')" by (simp add: objectPrototypeWith_def memberNames_def)
  from assms have r:
    "projectStored db (JObj []) ''constructor'' = Inl DataCloneError"
    by (simp add: projectStoredIn_def ownProp_None_iff [symmetric] objectPrototypeWith_def
        memberNames_def)
  from t r show
    "JsonDB_find h db (JObj [(''_id'', JStr ''constructor'')]) JUndef = Inl DataCloneError"
    and "JsonDB_findOne h db (JObj [(''_id'', JStr ''constructor'')]) JUndef = Inl DataCloneError"
    by (simp_all add: JsonDB_findIn_def JsonDB_findOneIn_def id_query_direct_lookup
        defaultProjection_def)
qed

section \<open>Properties of the collection\<close>

subsection \<open>Removal\<close>




subsection \<open>Insertion\<close>

text \<open>
  C6. The insertion of a document whose \<^verbatim>\<open>_id\<close> is a non-empty string that is already a key
  of the store returns the empty string, leaves the store as it is (so the document stored
  under that id is the same as before) and does not save; and so does the insertion of a
  value that is not a plain object: \<^verbatim>\<open>null\<close>, an array, a scalar.
\<close>

theorem insert_rejected:
  "(hasKey db i \<and> i \<noteq> [] \<and> getProp doc ''_id'' = JStr i \<longrightarrow>
      JsonDB_insert rnd pos db (JObj doc) options
        = Some (\<lparr>store = db, result = Inr [], saved = False\<rparr>, pos))
   \<and> (\<not> isPlainObject v \<longrightarrow>
      JsonDB_insert rnd pos db v options
        = Some (\<lparr>store = db, result = Inr [], saved = False\<rparr>, pos))"
  by (cases v) (auto simp: JsonDB_insertIn_def insertDocWithIdIn_def dbRead_key)

theorem insert_rejected_witness:
  "(hasKey exampleStore ''1'' \<and> ''1'' \<noteq> []
      \<and> getProp [(''_id'', JStr ''1''), (''val'', JNum 4)] ''_id'' = JStr ''1'')
   \<and> \<not> isPlainObject (JStr ''not an object'')
   \<and> JsonDB_insert (\<lambda>n. 0) 0 exampleStore (JObj [(''_id'', JStr ''1''), (''val'', JNum 4)]) JUndef
        = Some (\<lparr>store = exampleStore, result = Inr [], saved = False\<rparr>, 0)
   \<and> JsonDB_insert (\<lambda>n. 0) 0 exampleStore (JStr ''not an object'') JUndef
        = Some (\<lparr>store = exampleStore, result = Inr [], saved = False\<rparr>, 0)"
proof -
  have a: "hasKey exampleStore ''1'' \<and> ''1'' \<noteq> []
      \<and> getProp [(''_id'', JStr ''1''), (''val'', JNum 4)] ''_id'' = JStr ''1''"
    by (simp add: hasKey_def exampleStore_def getPropIn_def ownProp_def)
  have b: "\<not> isPlainObject (JStr ''not an object'')" by simp
  from a b
    insert_rejected [of exampleStore "''1''" "[(''_id'', JStr ''1''), (''val'', JNum 4)]"
      "\<lambda>n. 0" 0 JUndef "JStr ''not an object''"]
  show ?thesis by blast
qed

section \<open>Properties of the projection\<close>

lemma clone_data:
  "isData v \<Longrightarrow> structuredClone v = Inr v"
  "isDataList xs \<Longrightarrow> cloneList xs = Inr xs"
  "isDataProps kvs \<Longrightarrow> cloneProps kvs = Inr kvs"
  by (induction v and xs and kvs rule: structuredClone_cloneList_cloneProps.induct) auto

lemma clone_result:
  "structuredClone v = Inr w \<Longrightarrow> w = v"
  "cloneList xs = Inr ys \<Longrightarrow> ys = xs"
  "cloneProps kvs = Inr kvs' \<Longrightarrow> kvs' = kvs"
  by (induction v and xs and kvs arbitrary: w and ys and kvs'
      rule: structuredClone_cloneList_cloneProps.induct)
    (auto split: sum.splits)

lemma isData_getProp:
  "isDataProps doc \<Longrightarrow> objectPrototype k = JUndef \<Longrightarrow> isData (getProp doc k)"
  by (induction doc) (auto simp: getPropIn_def ownProp_def)

lemma projectInclusive_result:
  assumes "isDataProps doc" and "list_all (\<lambda>k. objectPrototype k = JUndef) keys"
  shows "\<exists>out. projectInclusive doc keys acc = Inr out
           \<and> set (map fst out) = set (map fst acc) \<union> set keys
           \<and> (distinct (map fst acc) \<longrightarrow> distinct (map fst out))
           \<and> (\<forall>k. getProp out k = (if k \<in> set keys then getProp doc k else getProp acc k))"
  using assms(2)
proof (induction keys arbitrary: acc)
  case Nil
  then show ?case by simp
next
  case (Cons key keys)
  from Cons.prems have pk: "objectPrototype key = JUndef"
    and rest: "list_all (\<lambda>k. objectPrototype k = JUndef) keys"
    by simp_all
  from assms(1) pk have c: "structuredClone (getProp doc key) = Inr (getProp doc key)"
    by (simp add: clone_data isData_getProp)
  from Cons.IH [OF rest, of "putProp acc key (getProp doc key)"] obtain out where
    out: "projectInclusive doc keys (putProp acc key (getProp doc key)) = Inr out"
      "set (map fst out) = set (map fst (putProp acc key (getProp doc key))) \<union> set keys"
      "distinct (map fst (putProp acc key (getProp doc key))) \<longrightarrow> distinct (map fst out)"
      "\<forall>k. getProp out k =
         (if k \<in> set keys then getProp doc k
          else getProp (putProp acc key (getProp doc key)) k)"
    by blast
  from out(2) have keys: "set (map fst out) = set (map fst acc) \<union> set (key # keys)"
    unfolding keys_putProp by auto
  from out(3) have dist: "distinct (map fst acc) \<longrightarrow> distinct (map fst out)"
    by (simp add: distinct_putProp)
  from out(4) have vals:
    "\<forall>k. getProp out k = (if k \<in> set (key # keys) then getProp doc k else getProp acc k)"
    by (simp add: getProp_putProp)
  from c out(1) keys dist vals show ?case by simp
qed

text \<open>
  For every document \<open>doc\<close> (a document holds data, no function) and every projection
  that is not empty, whose values are all truthy and none of whose keys is the name of a
  member of \<^verbatim>\<open>Object.prototype\<close>, \<open>dbProjection\<close> returns a document whose keys are exactly
  the keys of the projection, each of them once, and whose value under each key is the
  structured clone of \<^verbatim>\<open>doc[key]\<close> (of \<^verbatim>\<open>undefined\<close> when the document has no such field); so
  the result has the key \<^verbatim>\<open>_id\<close> exactly when the projection lists it.
\<close>

lemma inclusive_projection_of_fields:
  assumes "projection \<noteq> []" and "list_all truthy (map snd projection)" and "isDataProps doc"
    and "list_all (\<lambda>k. objectPrototype k = JUndef) (map fst projection)"
  shows "\<exists>out. dbProjection doc (JObj projection) = Inr (Some out)
           \<and> set (map fst out) = set (map fst projection)
           \<and> distinct (map fst out)
           \<and> (\<forall>k \<in> set (map fst projection).
                 structuredClone (getProp doc k) = Inr (getProp out k))
           \<and> (hasKey out ''_id'' = hasKey projection ''_id'')"
proof -
  from assms(2) have all: "filter truthy (map snd projection) = map snd projection"
    by (simp add: list_all_iff)
  from projectInclusive_result [OF assms(3,4), of "[]"] obtain out where
    out: "projectInclusive doc (map fst projection) [] = Inr out"
      "set (map fst out) = set (map fst projection)"
      "distinct (map fst out)"
      "\<forall>k. getProp out k = (if k \<in> set (map fst projection) then getProp doc k else getProp [] k)"
    by auto
  from assms(1) all out(1) have "dbProjection doc (JObj projection) = Inr (Some out)"
    by (simp add: Let_def)
  moreover from out(4) assms(3,4)
  have "\<forall>k \<in> set (map fst projection). structuredClone (getProp doc k) = Inr (getProp out k)"
    by (simp add: clone_data isData_getProp list_all_iff)
  moreover from out(2) have "hasKey out ''_id'' = hasKey projection ''_id''"
    by (simp add: hasKey_def del: set_map)
  ultimately show ?thesis using out(2,3) by blast
qed

text \<open>
  The projection \<^verbatim>\<open>{val: 1}\<close> of \<^verbatim>\<open>src/tests\<close>, one that lists a missing field, and the
  empty projection, which is not inclusive: it copies the whole document.
\<close>

lemma projection_examples:
  "dbProjection [(''_id'', JStr ''7''), (''name'', JStr ''bar''), (''val'', JNum 42)]
     (JObj [(''val'', JNum 1)]) = Inr (Some [(''val'', JNum 42)])"
  "dbProjection [(''_id'', JStr ''7''), (''name'', JStr ''bar''), (''val'', JNum 42)]
     (JObj [(''f'', JNum 1)]) = Inr (Some [(''f'', JUndef)])"
  "dbProjection [(''_id'', JStr ''7''), (''name'', JStr ''bar''), (''val'', JNum 42)]
     (JObj []) = Inr (Some [(''_id'', JStr ''7''), (''name'', JStr ''bar''), (''val'', JNum 42)])"
  by (simp_all add: getPropIn_def ownProp_def putProp_def hasKey_def isArrayIndex_def isDigit_def
      objectPrototypeWith_def memberNames_def)

text \<open>
  C7. The claim is that for every document and every projection whose values are all
  truthy, the projection yields a document with copies of exactly the listed fields. The
  loop of the code is \<^verbatim>\<open>output[key] = structuredClone(doc[key])\<close>, and \<^verbatim>\<open>doc[key]\<close> finds what
  the document inherits when it has no such field: for the listed key \<^verbatim>\<open>constructor\<close> it is
  the function \<^verbatim>\<open>Object\<close>, on which \<^verbatim>\<open>structuredClone\<close> raises. The projection
  \<^verbatim>\<open>{constructor: 1}\<close> of a document without that field yields no document: it raises a
  \<^verbatim>\<open>DataCloneError\<close>, and so does \<^verbatim>\<open>{val: 1, toString: 1}\<close>.
\<close>

theorem inclusive_projection_inherited_name_raises:
  "dbProjection [(''_id'', JStr ''7''), (''name'', JStr ''bar''), (''val'', JNum 42)]
     (JObj [(''constructor'', JNum 1)]) = Inl DataCloneError
   \<and> dbProjection [(''_id'', JStr ''7''), (''name'', JStr ''bar''), (''val'', JNum 42)]
     (JObj [(''val'', JNum 1), (''toString'', JNum 1)]) = Inl DataCloneError
   \<and> list_all truthy (map snd [(''constructor'', JNum 1)])
   \<and> list_all truthy (map snd [(''val'', JNum 1), (''toString'', JNum 1)])
   \<and> isDataProps [(''_id'', JStr ''7''), (''name'', JStr ''bar''), (''val'', JNum 42)]"
  by (simp add: getPropIn_def ownProp_def putProp_def hasKey_def isArrayIndex_def isDigit_def
      objectPrototypeWith_def memberNames_def)

section \<open>Queries that do not raise\<close>

text \<open>
  Apart from the exceptions of the host (a malformed pattern, a \<^verbatim>\<open>$where\<close> function that
  raises) and the \<^verbatim>\<open>TypeError\<close> of the validator on a \<^verbatim>\<open>null\<close> operand, \<open>dbQuery\<close>,
  \<open>dbQueryOne\<close> and \<^verbatim>\<open>count\<close> return: a query that passes the validator is evaluated
  without an exception, whatever the document.
\<close>

lemma validateOperator_array:
  "validateOperator opKey opVal \<Longrightarrow> opKey = ''$in'' \<or> opKey = ''$nin'' \<Longrightarrow> isArray opVal"
  by (auto simp: validateOperator_def)

lemma evalOperator_returns:
  assumes "validateOperator opKey opVal" and "hostTotal h"
  shows "\<not> isl (evalOperator h docVal opKey opVal)"
proof -
  from assms(2) have re: "\<And>p s. \<not> isl (regexp_test h p s)"
    by (simp add: hostTotal_def)
  consider "opKey = ''$in''" | "opKey = ''$nin''" | "opKey = ''$like''" | "opKey = ''$includes''"
    | "opKey \<noteq> ''$in'' \<and> opKey \<noteq> ''$nin'' \<and> opKey \<noteq> ''$like'' \<and> opKey \<noteq> ''$includes''"
    by blast
  then show ?thesis
  proof cases
    case 1
    with assms(1) have "isArray opVal" by (simp add: validateOperator_array)
    then obtain xs where "opVal = JArr xs" by (cases opVal) simp_all
    with 1 show ?thesis by (simp add: evalOperator_def)
  next
    case 2
    with assms(1) have "isArray opVal" by (simp add: validateOperator_array)
    then obtain xs where "opVal = JArr xs" by (cases opVal) simp_all
    with 2 show ?thesis by (simp add: evalOperator_def)
  next
    case 3
    with re show ?thesis by (simp add: evalOperator_def split: jsval.split)
  next
    case 4
    then show ?thesis by (simp add: evalOperator_def split: jsval.split)
  next
    case 5
    then show ?thesis by (simp add: evalOperator_def)
  qed
qed

lemma evalOperators_returns:
  assumes "hostTotal h"
  shows "list_all (\<lambda>(opKey, opVal). validateOperator opKey opVal) ops \<Longrightarrow>
         \<not> isl (evalOperators h docVal ops)"
proof (induction ops)
  case Nil
  then show ?case by simp
next
  case (Cons opr ops)
  obtain k v where o: "opr = (k, v)" by (cases opr)
  with Cons.prems have "validateOperator k v" by simp
  from evalOperator_returns [OF this assms, of docVal] obtain b where
    "evalOperator h docVal k v = Inr b" by (cases "evalOperator h docVal k v") auto
  with Cons o show ?case by simp
qed

lemma validateKeys_andD:
  assumes "validateKeys ((qName, qVal) # rest) = Inr True" and "qName = ''$and'' \<or> qName = ''$or''"
  shows "\<exists>qs. qVal = JArr qs \<and> validateEvery qs = Inr True \<and> validateKeys rest = Inr True"
  using assms by (cases qVal) (auto split: sum.split_asm if_split_asm)

lemma validateKeys_notD:
  assumes "validateKeys ((''$not'', qVal) # rest) = Inr True"
  shows "validateQuery qVal = Inr True \<and> validateKeys rest = Inr True"
  using assms by (auto split: sum.split_asm if_split_asm)

lemma validateKeys_whereD:
  assumes "validateKeys ((''$where'', qVal) # rest) = Inr True"
  shows "(\<exists>f. qVal = JFun f) \<and> validateKeys rest = Inr True"
  using assms by (cases qVal) (auto split: if_split_asm)

lemma validateKeys_fieldD:
  assumes "validateKeys ((qName, qVal) # rest) = Inr True"
    and "qName \<noteq> ''$and''" "qName \<noteq> ''$or''" "qName \<noteq> ''$not''" "qName \<noteq> ''$where''"
  shows "validateKeys rest = Inr True
    \<and> (typeof qVal = ''object'' \<longrightarrow>
         (\<exists>ops. ownEntries qVal = Inr ops
            \<and> list_all (\<lambda>(opKey, opVal). validateOperator opKey opVal) ops))"
  using assms by (auto split: sum.split_asm if_split_asm)


lemma not_isl_cases: "\<not> isl r \<Longrightarrow> (\<And>b. r = Inr b \<Longrightarrow> thesis) \<Longrightarrow> thesis"
  by (cases r) auto

lemma validate_evaluate:
  assumes "hostTotal h"
  shows "validateQuery q = Inr True \<Longrightarrow> \<not> isl (evalQuery h d q)"
    and "validateKeys kvs = Inr True \<Longrightarrow> \<not> isl (evalKeys h d kvs)"
    and "validateEvery qs = Inr True \<Longrightarrow> \<not> isl (evalAnd h d qs) \<and> \<not> isl (evalOr h d qs)"
proof (induction q and kvs and qs rule: validateQuery_validateKeys_validateEvery.induct)
  case (10 qName qVal rest)
  from assms have call: "\<And>f. \<not> isl (call_fn h f d)" by (simp add: hostTotal_def)
  consider (andor) "qName = ''$and'' \<or> qName = ''$or''"
    | (nt) "qName = ''$not''"
    | (wh) "qName = ''$where''"
    | (fld) "qName \<noteq> ''$and''" "qName \<noteq> ''$or''" "qName \<noteq> ''$not''" "qName \<noteq> ''$where''"
    by blast
  then show ?case
  proof cases
    case andor
    from validateKeys_andD [OF "10.prems" andor] obtain qs' where
      q: "qVal = JArr qs'" and e: "validateEvery qs' = Inr True" and r: "validateKeys rest = Inr True"
      by blast
    from "10.IH"(1) [OF andor q e] have a: "\<not> isl (evalAnd h d qs')" and o: "\<not> isl (evalOr h d qs')"
      by simp_all
    from "10.IH"(2) [OF andor q e _ r] have k: "\<not> isl (evalKeys h d rest)" by simp
    from a obtain x where x: "evalAnd h d qs' = Inr x" by (rule not_isl_cases)
    from o obtain y where y: "evalOr h d qs' = Inr y" by (rule not_isl_cases)
    from andor q x y k show ?thesis by auto
  next
    case nt
    from validateKeys_notD "10.prems" nt have
      v: "validateQuery qVal = Inr True" and r: "validateKeys rest = Inr True"
      by blast+
    from nt have na: "\<not> (qName = ''$and'' \<or> qName = ''$or'')" by simp
    from "10.IH"(3) [OF na nt v] obtain x where x: "evalQuery h d qVal = Inr x"
      by (rule not_isl_cases)
    from "10.IH"(4) [OF na nt v _ r] have k: "\<not> isl (evalKeys h d rest)" by simp
    from nt x k show ?thesis by simp
  next
    case wh
    from validateKeys_whereD "10.prems" wh obtain f where
      f: "qVal = JFun f" and r: "validateKeys rest = Inr True"
      by blast
    from wh have na: "\<not> (qName = ''$and'' \<or> qName = ''$or'')" and nn: "qName \<noteq> ''$not''"
      by simp_all
    from f have t: "\<not> typeof qVal \<noteq> ''function''" by simp
    from "10.IH"(5) [OF na nn wh t r] have k: "\<not> isl (evalKeys h d rest)" .
    from call [of f] obtain x where "call_fn h f d = Inr x" by (rule not_isl_cases)
    with wh f k show ?thesis by simp
  next
    case fld
    from validateKeys_fieldD [OF "10.prems" fld] have r: "validateKeys rest = Inr True"
      and ob: "typeof qVal = ''object'' \<longrightarrow>
         (\<exists>ops. ownEntries qVal = Inr ops
            \<and> list_all (\<lambda>(opKey, opVal). validateOperator opKey opVal) ops)"
      by simp_all
    from fld have na: "\<not> (qName = ''$and'' \<or> qName = ''$or'')" by simp
    show ?thesis
    proof (cases "typeof qVal = ''object''")
      case True
      with ob obtain ops where o: "ownEntries qVal = Inr ops"
        and v: "list_all (\<lambda>(opKey, opVal). validateOperator opKey opVal) ops"
        by blast
      from evalOperators_returns [OF assms v, of "getProp d qName"] obtain b where
        "evalOperators h (getProp d qName) ops = Inr b" by (rule not_isl_cases)
      with o True have ef: "evalField h d qName qVal = Inr b"
        by (simp add: evalFieldIn_def evalOperatorSet_def)
      from v have "\<not> \<not> list_all (\<lambda>(opKey, opVal). validateOperator opKey opVal) ops" by simp
      from "10.IH"(6) [OF na fld(3) fld(4) True o this r]
      have k: "\<not> isl (evalKeys h d rest)" .
      from fld ef k show ?thesis by simp
    next
      case False
      from "10.IH"(7) [OF na fld(3) fld(4) False r] have k: "\<not> isl (evalKeys h d rest)" .
      from False have ef: "evalField h d qName qVal = Inr (strictEq (getProp d qName) qVal)"
        by (simp add: evalFieldIn_def)
      from fld ef k show ?thesis by simp
    qed
  qed
next
  case (12 q qs)
  from "12.prems" have v: "validateQuery q = Inr True" and r: "validateEvery qs = Inr True"
    by (auto split: sum.split_asm if_split_asm)
  from "12.IH"(1) [OF v] obtain x where x: "evalQuery h d q = Inr x" by (rule not_isl_cases)
  from "12.IH"(2) [OF v _ r] have "\<not> isl (evalAnd h d qs) \<and> \<not> isl (evalOr h d qs)" by simp
  with x show ?case by simp
qed simp_all


lemma validate_returns:
  "nullFree q \<Longrightarrow> \<not> isl (validateQuery q)"
  "nullFreeProps kvs \<Longrightarrow> \<not> isl (validateKeys kvs)"
  "nullFreeList qs \<Longrightarrow> \<not> isl (validateEvery qs)"
proof (induction q and kvs and qs rule: validateQuery_validateKeys_validateEvery.induct)
  case (10 qName qVal rest)
  from "10.prems" have nv: "nullFree qVal" and nr: "nullFreeProps rest" by simp_all
  consider (andor) "qName = ''$and'' \<or> qName = ''$or''"
    | (nt) "qName = ''$not''"
    | (wh) "qName = ''$where''"
    | (fld) "qName \<noteq> ''$and''" "qName \<noteq> ''$or''" "qName \<noteq> ''$not''" "qName \<noteq> ''$where''"
    by blast
  then show ?case
  proof cases
    case andor
    show ?thesis
    proof (cases "isArray qVal")
      case True
      then obtain qs' where q: "qVal = JArr qs'" by (cases qVal) simp_all
      with nv have "nullFreeList qs'" by simp
      from "10.IH"(1) [OF andor q this] obtain b where b: "validateEvery qs' = Inr b"
        by (rule not_isl_cases)
      show ?thesis
      proof (cases b)
        case True
        with "10.IH"(2) [OF andor q b _ nr] have "\<not> isl (validateKeys rest)" by simp
        with andor q b True show ?thesis by auto
      next
        case False
        with andor q b show ?thesis by auto
      qed
    next
      case False
      with andor show ?thesis by (cases qVal) auto
    qed
  next
    case nt
    then have na: "\<not> (qName = ''$and'' \<or> qName = ''$or'')" by simp
    from "10.IH"(3) [OF na nt nv] obtain b where b: "validateQuery qVal = Inr b"
      by (rule not_isl_cases)
    show ?thesis
    proof (cases b)
      case True
      with "10.IH"(4) [OF na nt b _ nr] have "\<not> isl (validateKeys rest)" by simp
      with nt b True show ?thesis by simp
    next
      case False
      with nt b show ?thesis by simp
    qed
  next
    case wh
    then have na: "\<not> (qName = ''$and'' \<or> qName = ''$or'')" and nn: "qName \<noteq> ''$not''"
      by simp_all
    show ?thesis
    proof (cases "typeof qVal \<noteq> ''function''")
      case True
      with wh show ?thesis by simp
    next
      case False
      from "10.IH"(5) [OF na nn wh False nr] wh False show ?thesis by simp
    qed
  next
    case fld
    then have na: "\<not> (qName = ''$and'' \<or> qName = ''$or'')" by simp
    show ?thesis
    proof (cases "typeof qVal = ''object''")
      case True
      from nv True obtain ops where o: "ownEntries qVal = Inr ops" by (cases qVal) simp_all
      show ?thesis
      proof (cases "list_all (\<lambda>(opKey, opVal). validateOperator opKey opVal) ops")
        case ok: True
        then have "\<not> \<not> list_all (\<lambda>(opKey, opVal). validateOperator opKey opVal) ops" by simp
        from "10.IH"(6) [OF na fld(3) fld(4) True o this nr] fld True o ok
        show ?thesis by simp
      next
        case False
        with fld True o show ?thesis by simp
      qed
    next
      case False
      from "10.IH"(7) [OF na fld(3) fld(4) False nr] fld False show ?thesis by simp
    qed
  qed
next
  case (12 q qs)
  from "12.prems" have nq: "nullFree q" and nr: "nullFreeList qs" by simp_all
  from "12.IH"(1) [OF nq] obtain b where b: "validateQuery q = Inr b" by (rule not_isl_cases)
  show ?case
  proof (cases b)
    case True
    with "12.IH"(2) [OF b _ nr] b show ?thesis by simp
  next
    case False
    with b show ?thesis by simp
  qed
qed simp_all

lemma scanIds_returns:
  assumes "hostTotal h" and "validateQuery q = Inr True"
  shows "set ks \<subseteq> set (map fst db) \<Longrightarrow> \<not> isl (scanIds h db ks q)"
proof (induction ks)
  case Nil
  then show ?case by simp
next
  case (Cons k ks)
  then have "hasKey db k" by (simp add: hasKey_def)
  then obtain d where d: "ownProp db k = Some d"
    using ownProp_None_iff [of db k] by (cases "ownProp db k") auto
  from validate_evaluate(1) [OF assms, of d] obtain m where "evalQuery h d q = Inr m"
    by (rule not_isl_cases)
  moreover from Cons obtain ids where "scanIds h db ks q = Inr ids"
    by (auto elim: not_isl_cases)
  ultimately show ?case using d by simp
qed

lemma scanFirst_returns:
  assumes "hostTotal h" and "validateQuery q = Inr True"
  shows "set ks \<subseteq> set (map fst db) \<Longrightarrow> \<not> isl (scanFirst h db ks q)"
proof (induction ks)
  case Nil
  then show ?case by simp
next
  case (Cons k ks)
  then have "hasKey db k" by (simp add: hasKey_def)
  then obtain d where d: "ownProp db k = Some d"
    using ownProp_None_iff [of db k] by (cases "ownProp db k") auto
  from validate_evaluate(1) [OF assms, of d] obtain m where "evalQuery h d q = Inr m"
    by (rule not_isl_cases)
  with Cons d show ?case by simp
qed

lemma validated_is_object: "validateQuery q = Inr True \<Longrightarrow> \<exists>kvs. q = JObj kvs"
  by (cases q) simp_all

lemma dbQuery_returns:
  assumes "hostTotal h" and "nullFree q"
  shows "\<not> isl (dbQuery h db q) \<and> \<not> isl (dbQueryOne h db q) \<and> \<not> isl (JsonDB_count h db q)"
proof -
  from validate_returns(1) [OF assms(2)] obtain b where b: "validateQuery q = Inr b"
    by (rule not_isl_cases)
  show ?thesis
  proof (cases b)
    case False
    with b show ?thesis by (simp add: dbQueryIn_def dbQueryOneIn_def JsonDB_countIn_def)
  next
    case True
    with b have v: "validateQuery q = Inr True" by simp
    then obtain kvs where q: "q = JObj kvs" using validated_is_object by blast
    from scanIds_returns [OF assms(1) v, of "map fst db" db]
    have s: "\<not> isl (scanQuery h db q)" by (simp add: scanQueryIn_def)
    from scanFirst_returns [OF assms(1) v, of "map fst db" db]
    have s1: "\<not> isl (scanQueryOne h db q)" by (simp add: scanQueryOneIn_def)
    from v q s have a: "\<not> isl (dbQuery h db q)"
      by (simp add: dbQueryIn_def Let_def split: jsval.split)
    from v q s1 have b: "\<not> isl (dbQueryOne h db q)"
      by (simp add: dbQueryOneIn_def Let_def split: jsval.split)
    from a have "\<not> isl (JsonDB_count h db q)"
      by (cases "dbQuery h db q") (simp_all add: JsonDB_countIn_def)
    with a b show ?thesis by simp
  qed
qed

text \<open>A query that the validator rejects matches nothing.\<close>

lemma invalid_query_is_empty:
  assumes "validateQuery q = Inr False"
  shows "dbQuery h db q = Inr [] \<and> dbQueryOne h db q = Inr []
    \<and> JsonDB_count h db q = Inr 0 \<and> JsonDB_find h db q p = Inr []
    \<and> JsonDB_findOne h db q p = Inr None"
  using assms
  by (simp add: dbQueryIn_def dbQueryOneIn_def JsonDB_countIn_def JsonDB_findIn_def JsonDB_findOneIn_def)

section \<open>Properties of the id generator\<close>

lemma length_alphabet: "length alphabet = 63"
  by (simp add: alphabet_def)


lemma pick_symbol:
  assumes "0 \<le> r" and "r < 1"
  shows "\<exists>c \<in> set alphabet. pick r = [c]"
proof -
  let ?i = "\<lfloor>r * real (length alphabet)\<rfloor>"
  from assms(1) have lo: "0 \<le> ?i" by simp
  from assms(2) have "r * real (length alphabet) < real (length alphabet)"
    by (simp add: length_alphabet)
  then have hi: "?i < int (length alphabet)"
    by (simp add: floor_less_iff)
  from lo hi have "nat ?i < length alphabet" by linarith
  then have "alphabet ! nat ?i \<in> set alphabet" by (rule nth_mem)
  with lo hi show ?thesis by (simp add: pick_def Let_def)
qed

lemma uid_symbols:
  assumes "unitInterval rnd"
  shows "length (uid rnd pos len) = len \<and> set (uid rnd pos len) \<subseteq> set alphabet"
proof (induction len)
  case 0
  then show ?case by (simp add: uid_def)
next
  case (Suc len)
  from assms have "0 \<le> rnd (pos + len)" and "rnd (pos + len) < 1"
    by (simp_all add: unitInterval_def)
  then obtain c where "c \<in> set alphabet" and "pick (rnd (pos + len)) = [c]"
    using pick_symbol by blast
  with Suc show ?case by (simp add: uid_def)
qed

lemma makeId_result:
  assumes "makeId rnd pos db = Some y"
  shows "\<exists>k. y = (uid rnd (pos + 16 * k) 16, pos + 16 * k + 16) \<and> ownProp db (fst y) = None"
  using assms
proof (induction rule: makeId.raw_induct [rotated 1, consumes 1])
  case (1 makeId' rnd pos db y)
  show ?case
  proof (cases "ownProp db (uid rnd pos 16) = None")
    case True
    with 1(2) have "y = (uid rnd pos 16, pos + 16)" by auto
    with True show ?thesis by (intro exI [of _ 0]) simp
  next
    case False
    with 1(2) have "makeId' rnd (pos + 16) db = Some y" by simp
    from 1(1) [OF this] obtain k where
      "y = (uid rnd (pos + 16 + 16 * k) 16, pos + 16 + 16 * k + 16)" "ownProp db (fst y) = None"
      by blast
    then show ?thesis by (intro exI [of _ "Suc k"]) (simp add: add.assoc)
  qed
qed







section \<open>Properties of the update engine\<close>

subsection \<open>Idempotence of \<^verbatim>\<open>$set\<close>\<close>






subsection \<open>The change flag\<close>


















text \<open>
  One failure and two successes in one update: the flag is \<open>1\<close>, not a count.
\<close>

lemma flag_example:
  "dbUpdate [(''_id'', JStr ''1''), (''name'', JStr ''foo''), (''val'', JNum 1)]
     (JObj [(''$inc'', JObj [(''name'', JNum 1), (''val'', JNum 5), (''x'', JNum 2)])])
   = (([(''_id'', JStr ''1''), (''name'', JStr ''foo''), (''val'', JNum 6), (''x'', JNum 2)], 1),
      None)"
  "map (\<lambda>(operator, d, entry). subOperationSucceeds operator d entry)
     (subOperations [(''_id'', JStr ''1''), (''name'', JStr ''foo''), (''val'', JNum 1)]
        (JObj [(''$inc'', JObj [(''name'', JNum 1), (''val'', JNum 5), (''x'', JNum 2)])]))
   = [False, True, True]"
  by (simp_all add: applyOperatorIn_def operatorReachedIn_def stepOfIn_def subOperationSucceedsIn_def
      getPropIn_def ownProp_def putProp_def hasKey_def isArrayIndex_def isDigit_def
      objectPrototypeWith_def memberNames_def)

text \<open>
  The rules read \<^verbatim>\<open>doc[f]\<close> as the code does. A field that the document only inherits
  exists: \<^verbatim>\<open>$inc\<close> and \<^verbatim>\<open>$push\<close> on \<^verbatim>\<open>constructor\<close> are skipped, and \<^verbatim>\<open>$unset\<close> of it
  succeeds, with the flag \<open>1\<close>, on a document that it leaves as it is.
\<close>

lemma inherited_field_examples:
  "dbUpdate [(''_id'', JStr ''1'')] (JObj [(''$inc'', JObj [(''constructor'', JNum 1)])])
     = (([(''_id'', JStr ''1'')], 0), None)"
  "dbUpdate [(''_id'', JStr ''1'')] (JObj [(''$push'', JObj [(''constructor'', JNum 1)])])
     = (([(''_id'', JStr ''1'')], 0), None)"
  "dbUpdate [(''_id'', JStr ''1'')] (JObj [(''$unset'', JObj [(''constructor'', JNum 1)])])
     = (([(''_id'', JStr ''1'')], 1), None)"
  by (simp_all add: applyOperatorIn_def stepOfIn_def getPropIn_def ownProp_def deleteProp_def
      objectPrototypeWith_def memberNames_def)

text \<open>
  \<^verbatim>\<open>update({_id: "__proto__"}, {$set: {a: 1}})\<close> on the store of the tests, which has no such
  key: the update runs on \<^verbatim>\<open>Object.prototype\<close>, and its flag is the number returned.
\<close>

lemma prototype_update_counted:
  "JsonDB_update exampleHost exampleStore (JObj [(''_id'', JStr ''__proto__'')])
     (JObj [(''$set'', JObj [(''a'', JNum 1)])]) JUndef
   = \<lparr>store = exampleStore, result = Inr 1, saved = True, prototypeAfter = [(''a'', JNum 1)]\<rparr>"
  "flagOf exampleStore (JObj [(''$set'', JObj [(''a'', JNum 1)])]) ''__proto__'' = 1"
proof -
  let ?q = "JObj [(''_id'', JStr ''__proto__'')]"
  let ?u = "JObj [(''$set'', JObj [(''a'', JNum 1)])]"
  have t: "truthy (objectPrototype ''__proto__'')" by (simp add: objectPrototypeWith_def)
  then have q: "dbQuery exampleHost exampleStore ?q = Inr [''__proto__'']"
    by (simp add: id_query_direct_lookup)
  have o: "ownProp exampleStore ''__proto__'' = None"
    by (simp add: ownProp_def exampleStore_def)
  have r: "dbUpdateIn objectPrototypeMember [] ?u = (([(''a'', JNum 1)], 1), None)"
    by (simp add: applyOperatorIn_def stepOfIn_def putProp_def hasKey_def isArrayIndex_def
        isDigit_def)
  have n: "\<not> list_ex (\<lambda>k. k \<in> set memberNames) (updateNames ?u)"
    by (simp add: operatorNames_def newNames_def memberNames_def)
  from o r n have a:
    "updateAll exampleStore ?u 0 [''__proto__''] = (([(''a'', JNum 1)], exampleStore, 1), None)"
    by (simp add: hasKey_def del: dbUpdateIn.simps)
  have s: "\<not> optionFlagIn (objectPrototypeWith [(''a'', JNum 1)]) JUndef ''skipSave''" by simp
  from q a s show "JsonDB_update exampleHost exampleStore ?q ?u JUndef
   = \<lparr>store = exampleStore, result = Inr 1, saved = True, prototypeAfter = [(''a'', JNum 1)]\<rparr>"
    by (simp add: JsonDB_updateIn_def del: updateAllIn.simps)
  from o r show "flagOf exampleStore ?u ''__proto__'' = 1"
    by (simp add: flagOf_def flagAfter_def del: dbUpdateIn.simps)
qed





section \<open>The invariant of the store\<close>

lemma storeInv_putProp:
  assumes "storeInv db" and "k \<noteq> []" and "ownProp d ''_id'' = Some (JStr k)"
  shows "storeInv (putProp db k d)"
proof -
  from assms(1) have dist: "distinct (map fst db)" by (simp add: storeInv_def)
  from assms show ?thesis
    unfolding storeInv_def list_all_iff set_putProp [OF dist]
    by (auto simp: distinct_putProp)
qed

lemma storeInv_filter: "storeInv db \<Longrightarrow> storeInv (filter P db)"
  by (auto simp: storeInv_def list_all_iff distinct_map_filter)

lemma storeInv_lookup:
  "storeInv db \<Longrightarrow> ownProp db k = Some d \<Longrightarrow> ownProp d ''_id'' = Some (JStr k) \<and> k \<noteq> []"
  by (auto simp: ownProp_def storeInv_def list_all_iff dest!: map_of_SomeD)

text \<open>
  No step of the update engine changes the \<^verbatim>\<open>_id\<close> that a document has, whatever the
  document inherits.
\<close>

lemma incStep_keeps_id:
  assumes "ownProp doc ''_id'' = Some (JStr k)" and "incStepIn inh doc n entry = Inr (doc', n')"
  shows "ownProp doc' ''_id'' = Some (JStr k)"
proof -
  obtain field delta where e: "entry = (field, delta)" by (cases entry)
  from assms(1) have g: "getPropIn inh doc ''_id'' = JStr k" by (rule getProp_ownProp)
  from assms g show ?thesis
    unfolding e
    by (cases delta; cases "field = ''_id''")
      (auto simp: ownProp_putProp split: jsval.splits)
qed

lemma pushStep_keeps_id:
  assumes "ownProp doc ''_id'' = Some (JStr k)" and "pushStepIn inh doc n entry = Inr (doc', n')"
  shows "ownProp doc' ''_id'' = Some (JStr k)"
proof -
  obtain field val where e: "entry = (field, val)" by (cases entry)
  from assms(1) have g: "getPropIn inh doc ''_id'' = JStr k" by (rule getProp_ownProp)
  from assms g show ?thesis
    unfolding e
    by (cases "field = ''_id''")
      (auto simp: ownProp_putProp split: jsval.splits sum.splits if_splits)
qed

lemma renameStep_keeps_id:
  assumes "ownProp doc ''_id'' = Some (JStr k)"
    and "renameStepIn inh doc n entry = Inr (doc', n')"
  shows "ownProp doc' ''_id'' = Some (JStr k)"
proof -
  obtain field newName where e: "entry = (field, newName)" by (cases entry)
  from assms(1) have g: "getPropIn inh doc ''_id'' = JStr k" by (rule getProp_ownProp)
  from assms g show ?thesis
    unfolding e
    by (cases newName)
      (auto simp: ownProp_putProp ownProp_deleteProp split: sum.splits if_splits)
qed

lemma setStep_keeps_id:
  "ownProp doc ''_id'' = Some (JStr k) \<Longrightarrow> setStep doc n entry = Inr (doc', n') \<Longrightarrow>
   ownProp doc' ''_id'' = Some (JStr k)"
  by (cases entry) (auto simp: ownProp_putProp split: sum.splits if_splits)

lemma unsetStep_keeps_id:
  "ownProp doc ''_id'' = Some (JStr k) \<Longrightarrow> unsetStepIn inh doc n entry = Inr (doc', n') \<Longrightarrow>
   ownProp doc' ''_id'' = Some (JStr k)"
  by (cases entry) (auto simp: ownProp_deleteProp split: if_splits)

lemma step_keeps_id:
  "stepOfIn inh operator = Some step \<Longrightarrow> ownProp doc ''_id'' = Some (JStr k) \<Longrightarrow>
   step doc n entry = Inr (doc', n') \<Longrightarrow> ownProp doc' ''_id'' = Some (JStr k)"
  by (auto simp: stepOfIn_def split: if_splits
      dest: incStep_keeps_id pushStep_keeps_id renameStep_keeps_id setStep_keeps_id
        unsetStep_keeps_id)

lemma forEntries_keeps_id:
  assumes "stepOfIn inh operator = Some step"
  shows "ownProp doc ''_id'' = Some (JStr k) \<Longrightarrow>
         ownProp (fst (fst (forEntries step doc n entries))) ''_id'' = Some (JStr k)"
proof (induction entries arbitrary: doc n)
  case Nil
  then show ?case by simp
next
  case (Cons entry entries)
  show ?case
  proof (cases "step doc n entry")
    case (Inl e)
    with Cons.prems show ?thesis by simp
  next
    case (Inr r)
    obtain doc' n' where r: "r = (doc', n')" by (cases r)
    from step_keeps_id [OF assms Cons.prems] Inr r
    have "ownProp doc' ''_id'' = Some (JStr k)" by simp
    from Cons.IH [OF this] Inr r show ?thesis by simp
  qed
qed

lemma applyOperator_keeps_id:
  "ownProp doc ''_id'' = Some (JStr k) \<Longrightarrow>
   ownProp (fst (fst (applyOperatorIn inh doc n opr))) ''_id'' = Some (JStr k)"
  by (auto simp: applyOperatorIn_def forEntries_keeps_id split: option.splits sum.splits)

lemma forOperators_keeps_id:
  "ownProp doc ''_id'' = Some (JStr k) \<Longrightarrow>
   ownProp (fst (fst (forOperatorsIn inh doc n ops))) ''_id'' = Some (JStr k)"
proof (induction ops arbitrary: doc n)
  case Nil
  then show ?case by simp
next
  case (Cons opr ops)
  obtain d m x where a: "applyOperatorIn inh doc n opr = ((d, m), x)"
    by (cases "applyOperatorIn inh doc n opr") auto
  with applyOperator_keeps_id [OF Cons.prems, of inh n opr]
  have "ownProp d ''_id'' = Some (JStr k)" by simp
  from Cons.IH [OF this] this a show ?case by (cases x) simp_all
qed

lemma dbUpdate_keeps_id:
  "ownProp doc ''_id'' = Some (JStr k) \<Longrightarrow>
   ownProp (docAfter (dbUpdateIn inh doc upd)) ''_id'' = Some (JStr k)"
  by (cases upd) (simp_all add: docAfter_def forOperators_keeps_id)

lemma updateAll_storeInv:
  "storeInv db \<Longrightarrow> storeInv (fst (snd (fst (updateAllIn added db upd n ids))))"
proof (induction ids arbitrary: added db n)
  case Nil
  then show ?case by simp
next
  case (Cons i ids)
  show ?case
  proof (cases "ownProp db i")
    case None
    show ?thesis
    proof (cases "\<exists>opr oprs. upd = JObj (opr # oprs)")
      case True
      then obtain opr oprs where u: "upd = JObj (opr # oprs)" by blast
      obtain a m x where r: "dbUpdateIn objectPrototypeMember added upd = ((a, m), x)"
        by (cases "dbUpdateIn objectPrototypeMember added upd") auto
      from Cons.IH [OF Cons.prems, of a "n + m"] Cons.prems None u r show ?thesis
        by (cases x) (auto simp del: dbUpdateIn.simps)
    next
      case False
      with None have "updateAllIn added db upd n (i # ids) = updateAllIn added db upd n ids"
        by (auto split: jsval.splits list.splits)
      with Cons.IH [OF Cons.prems] show ?thesis by simp
    qed
  next
    case (Some doc)
    obtain doc' m x where u: "dbUpdateIn (objectPrototypeWith added) doc upd = ((doc', m), x)"
      by (cases "dbUpdateIn (objectPrototypeWith added) doc upd") auto
    from storeInv_lookup [OF Cons.prems Some]
    have "ownProp doc ''_id'' = Some (JStr i)" and ne: "i \<noteq> []" by simp_all
    from dbUpdate_keeps_id [OF this(1), of "objectPrototypeWith added" upd] u
    have "ownProp doc' ''_id'' = Some (JStr i)"
      by (simp add: docAfter_def)
    with Cons.prems ne have inv: "storeInv (putProp db i doc')" by (simp add: storeInv_putProp)
    from Cons.IH [OF inv] inv Some u show ?thesis by (cases x) simp_all
  qed
qed

lemma update_storeInv:
  "storeInv db \<Longrightarrow> storeInv (store (JsonDB_updateIn added h db query upd options))"
proof -
  assume inv: "storeInv db"
  show ?thesis
  proof (cases "dbQueryIn (objectPrototypeWith added) h db query")
    case (Inl e)
    with inv show ?thesis by (simp add: JsonDB_updateIn_def)
  next
    case (Inr ids)
    obtain added' db' m x where u: "updateAllIn added db upd 0 ids = ((added', db', m), x)"
      by (cases "updateAllIn added db upd 0 ids") auto
    with updateAll_storeInv [OF inv, of added upd 0 ids] have "storeInv db'" by simp
    with inv Inr u show ?thesis by (cases x) (simp_all add: JsonDB_updateIn_def)
  qed
qed

lemma remove_storeInv:
  "storeInv db \<Longrightarrow> storeInv (store (JsonDB_removeIn inh h db query options))"
  by (cases "dbQueryIn inh h db query")
    (simp_all add: JsonDB_removeIn_def deleteAll_filter storeInv_filter)

text \<open>
  \<^verbatim>\<open>insert\<close> keeps the store well formed when the document being inserted inherits no
  \<^verbatim>\<open>_id\<close>.
\<close>

lemma insert_storeInv:
  assumes "storeInv db" and "unitInterval rnd" and "inh ''_id'' = JUndef"
    and "JsonDB_insertIn inh rnd pos db doc options = Some (out, pos')"
  shows "storeInv (store out)"
proof -
  from assms(4) obtain db' r where
    d: "dbInsertIn inh rnd pos db doc = Some ((db', r), pos')" and s: "store out = db'"
    by (auto simp: JsonDB_insertIn_def split: option.splits)
  have withId: "storeInv db'"
    if "getPropIn inh kvs ''_id'' = JStr i" and "i \<noteq> []"
      and "insertDocWithIdIn inh db kvs i = (db', r)" for kvs i
  proof -
    from that(1) assms(3) have "ownProp kvs ''_id'' = Some (JStr i)"
      by (cases "ownProp kvs ''_id''") (simp_all add: getPropIn_def)
    with that(2,3) assms(1) show ?thesis
      by (auto simp: insertDocWithIdIn_def storeInv_putProp split: sum.splits if_splits
          dest: clone_result)
  qed
  have fresh: "storeInv db'" if "insertDoc rnd pos db kvs = Some ((db', r), pos')" for kvs
  proof -
    from that obtain i where m: "makeId rnd pos db = Some (i, pos')"
      and c: "(\<exists>e. cloneProps kvs = Inl e \<and> db' = db)
              \<or> (\<exists>d. cloneProps kvs = Inr d \<and> db' = putProp db i (putProp d ''_id'' (JStr i)))"
      by (auto simp: insertDoc_def split: option.splits sum.splits)
    from makeId_result [OF m] obtain k where "i = uid rnd (pos + 16 * k) 16" by auto
    with uid_symbols [OF assms(2), of "pos + 16 * k" 16] have "i \<noteq> []" by auto
    with c assms(1) show ?thesis
      by (auto simp: storeInv_putProp ownProp_putProp)
  qed
  show ?thesis
  proof (cases doc)
    case (JObj kvs)
    with d withId fresh assms(1) s show ?thesis
      by (auto split: jsval.splits if_splits)
  qed (use d s assms(1) in auto)
qed

text \<open>
  One operation, started in a state in which \<^verbatim>\<open>Object.prototype\<close> has no property \<^verbatim>\<open>_id\<close>,
  leaves a well-formed store well formed, whatever its arguments and whether it returns or
  raises.
\<close>

lemma opStep_storeInv:
  assumes "opStep h s s'" and "storeInv (snd s)" and "objectPrototypeWith (fst s) ''_id'' = JUndef"
  shows "storeInv (snd s')"
  using assms
  by (induction rule: opStep.induct)
    (simp_all add: insert_storeInv remove_storeInv update_storeInv)

lemma update_on_id_refused:
  assumes "getProp doc ''_id'' = JStr k"
  shows "dbUpdate doc (JObj [(''$inc'', JObj [(''_id'', v)])]) = ((doc, 0), None)"
    and "dbUpdate doc (JObj [(''$push'', JObj [(''_id'', v)])]) = ((doc, 0), None)"
    and "dbUpdate doc (JObj [(''$rename'', JObj [(''_id'', v)])]) = ((doc, 0), None)"
    and "dbUpdate doc (JObj [(''$rename'', JObj [(f, JStr ''_id'')])]) = ((doc, 0), None)"
  using assms
  by (cases v; simp add: applyOperatorIn_def stepOfIn_def)+

text \<open>
  C10. The claim is that every sequence of \<^verbatim>\<open>insert\<close>, \<^verbatim>\<open>remove\<close> and \<^verbatim>\<open>update\<close> keeps
  every document under its own \<^verbatim>\<open>_id\<close>. The code has a sequence that does not, from the
  store of the tests, in a program that has added nothing to \<^verbatim>\<open>Object.prototype\<close>.

  \<^item> \<^verbatim>\<open>update({_id: "__proto__"}, {$set: {a: "zz"}, $rename: {a: "_id"}})\<close>: the direct lookup
    of \<open>dbQuery\<close> returns the id \<^verbatim>\<open>__proto__\<close>, which is not a key of the store, and the
    update is run on \<^verbatim>\<open>this.docMap["__proto__"]\<close>, which is \<^verbatim>\<open>Object.prototype\<close>. It returns
    \<open>1\<close>, leaves the store as it is and leaves \<^verbatim>\<open>Object.prototype\<close> with the property
    \<^verbatim>\<open>_id\<close>, of value \<^verbatim>\<open>"zz"\<close>.
  \<^item> \<^verbatim>\<open>insert({b: 1})\<close>: the document has no \<^verbatim>\<open>_id\<close> but inherits one, which \<open>dbInsert\<close>
    reads; \<open>insertDocWithId\<close> stores the copy of the document, which has no \<^verbatim>\<open>_id\<close>, under
    the key \<^verbatim>\<open>zz\<close>.

  The store that the two operations reach is not well formed.
\<close>

theorem prototype_update_breaks_store_invariant:
  "storeInv exampleStore
   \<and> JsonDB_update exampleHost exampleStore (JObj [(''_id'', JStr ''__proto__'')])
         (JObj [(''$set'', JObj [(''a'', JStr ''zz'')]),
                (''$rename'', JObj [(''a'', JStr ''_id'')])]) JUndef
       = \<lparr>store = exampleStore, result = Inr 1, saved = True,
           prototypeAfter = [(''_id'', JStr ''zz'')]\<rparr>
   \<and> JsonDB_insertIn (objectPrototypeWith [(''_id'', JStr ''zz'')]) (\<lambda>n. 0) 0 exampleStore
         (JObj [(''b'', JNum 1)]) JUndef
       = Some (\<lparr>store = exampleStore @ [(''zz'', [(''b'', JNum 1)])], result = Inr ''zz'',
                 saved = True\<rparr>, 0)
   \<and> reachable exampleHost ([], exampleStore)
        ([(''_id'', JStr ''zz'')], exampleStore @ [(''zz'', [(''b'', JNum 1)])])
   \<and> ownProp [(''b'', JNum 1)] ''_id'' = None
   \<and> \<not> storeInv (exampleStore @ [(''zz'', [(''b'', JNum 1)])])"
proof -
  let ?q = "JObj [(''_id'', JStr ''__proto__'')]"
  let ?u = "JObj [(''$set'', JObj [(''a'', JStr ''zz'')]),
                  (''$rename'', JObj [(''a'', JStr ''_id'')])]"
  let ?added = "[(''_id'', JStr ''zz'')]"
  let ?db = "exampleStore @ [(''zz'', [(''b'', JNum 1)])]"
  have t: "truthy (objectPrototype ''__proto__'')" by (simp add: objectPrototypeWith_def)
  then have q: "dbQuery exampleHost exampleStore ?q = Inr [''__proto__'']"
    by (simp add: id_query_direct_lookup)
  have o: "ownProp exampleStore ''__proto__'' = None"
    by (simp add: ownProp_def exampleStore_def)
  have r: "dbUpdateIn objectPrototypeMember [] ?u = ((?added, 1), None)"
    by (simp add: applyOperatorIn_def stepOfIn_def getPropIn_def objectPrototypeMember_def
        memberNames_def ownProp_def putProp_def deleteProp_def hasKey_def isArrayIndex_def
        isDigit_def)
  have n: "\<not> list_ex (\<lambda>k. k \<in> set memberNames) (updateNames ?u)"
    by (simp add: operatorNames_def newNames_def memberNames_def)
  from o r n have a: "updateAll exampleStore ?u 0 [''__proto__''] = ((?added, exampleStore, 1), None)"
    by (simp add: hasKey_def del: dbUpdateIn.simps)
  have s: "\<not> optionFlagIn (objectPrototypeWith ?added) JUndef ''skipSave''" by simp
  from q a s have u: "JsonDB_update exampleHost exampleStore ?q ?u JUndef
       = \<lparr>store = exampleStore, result = Inr 1, saved = True, prototypeAfter = ?added\<rparr>"
    by (simp add: JsonDB_updateIn_def del: updateAllIn.simps)
  have i: "JsonDB_insertIn (objectPrototypeWith ?added) (\<lambda>n. 0) 0 exampleStore
         (JObj [(''b'', JNum 1)]) JUndef
       = Some (\<lparr>store = ?db, result = Inr ''zz'', saved = True\<rparr>, 0)"
    by (simp add: JsonDB_insertIn_def getPropIn_def objectPrototypeWith_def memberNames_def
        insertDocWithIdIn_def dbReadIn_def ownProp_def exampleStore_def putProp_def hasKey_def
        isArrayIndex_def isDigit_def)
  have "opStep exampleHost ([], exampleStore) (?added, exampleStore)"
    using stepUpdate [of "[]" exampleHost exampleStore ?q ?u JUndef] by (simp add: u)
  moreover have "opStep exampleHost (?added, exampleStore) (?added, ?db)"
    using stepInsert [of "\<lambda>n. 0" ?added 0 exampleStore "JObj [(''b'', JNum 1)]" JUndef _ 0
        exampleHost] i
    by (simp add: unitInterval_def)
  ultimately have reach: "reachable exampleHost ([], exampleStore) (?added, ?db)"
    using reachRefl reachStep by blast
  have bad: "\<not> storeInv ?db"
    by (simp add: storeInv_def ownProp_def)
  have np: "ownProp [(''b'', JNum 1)] ''_id'' = None" by (simp add: ownProp_def)
  from exampleStore_inv u i reach np bad show ?thesis by simp
qed

end
